theory Spec2Isabelle
  imports Complex_Main
begin

section \<open>Python values, exceptions and the external objects\<close>

text \<open>
  Exceptions that the modelled code can meet. \<open>KeyboardInterrupt\<close> stands for the
  classes that derive from \<open>BaseException\<close> but not from \<open>Exception\<close>: an
  \<open>except Exception\<close> clause does not catch them.
\<close>

datatype exc = ImportError | AttributeError | TypeError | OSError | RuntimeError string
  | KeyboardInterrupt

fun is_Exception :: "exc \<Rightarrow> bool" where
  "is_Exception KeyboardInterrupt = False"
| "is_Exception _ = True"

text \<open>Python is dynamically typed: what a backend returns is passed on unchecked.\<close>

datatype pyval = PyInts "int list" | PyStrs "string list" | PyStr string | PyInt int

text \<open>
  Errors of \<open>tokenize\<close>, \<open>decode\<close> and \<open>get_vocab_size\<close>, by raise site:
  \<open>NotInitializedError\<close> is the \<open>RuntimeError("Tokenizer not initialized")\<close> of the guard
  at the head of each method, \<open>Raised e\<close> is an exception coming out of an attribute
  lookup or a call on the backend object.
\<close>

datatype error = NotInitializedError | Raised exc

datatype encode_kwargs = AddSpecialTokens bool | OutTypeInt | OutTypeStr

datatype decode_kwargs = SkipSpecialTokens bool | NoKwargs

text \<open>
  The object held in \<open>self._tokenizer\<close>: a \<open>T5Tokenizer\<close> of the transformers library
  or a \<open>SentencePieceProcessor\<close> of the sentencepiece library. Both libraries are
  external, so each attribute the code touches is a parameter: \<open>None\<close> when the
  object has no such attribute (\<open>hasattr\<close> is false and a lookup raises
  \<open>AttributeError\<close>), otherwise the behaviour of the call.
\<close>

record tok_obj =
  encode_attr :: "(string \<Rightarrow> encode_kwargs \<Rightarrow> exc + pyval) option"
  convert_ids_to_tokens_attr :: "(pyval \<Rightarrow> exc + pyval) option"
  decode_attr :: "(pyval \<Rightarrow> decode_kwargs \<Rightarrow> exc + pyval) option"
  vocab_size_attr :: "pyval option"
  get_piece_size_attr :: "(exc + pyval) option"

text \<open>Python's \<open>None\<close> has none of these attributes.\<close>

definition none_obj :: tok_obj where
  "none_obj = \<lparr>encode_attr = None, convert_ids_to_tokens_attr = None, decode_attr = None,
     vocab_size_attr = None, get_piece_size_attr = None\<rparr>"

definition obj_of :: "tok_obj option \<Rightarrow> tok_obj" where
  "obj_of t = (case t of None \<Rightarrow> none_obj | Some tk \<Rightarrow> tk)"

definition hasattr_encode :: "tok_obj \<Rightarrow> bool" where
  "hasattr_encode tk = (case encode_attr tk of None \<Rightarrow> False | Some _ \<Rightarrow> True)"

definition hasattr_decode :: "tok_obj \<Rightarrow> bool" where
  "hasattr_decode tk = (case decode_attr tk of None \<Rightarrow> False | Some _ \<Rightarrow> True)"

definition hasattr_vocab_size :: "tok_obj \<Rightarrow> bool" where
  "hasattr_vocab_size tk = (case vocab_size_attr tk of None \<Rightarrow> False | Some _ \<Rightarrow> True)"

definition call_encode :: "tok_obj \<Rightarrow> string \<Rightarrow> encode_kwargs \<Rightarrow> exc + pyval" where
  "call_encode tk text kw =
     (case encode_attr tk of None \<Rightarrow> Inl AttributeError | Some f \<Rightarrow> f text kw)"

definition call_convert_ids_to_tokens :: "tok_obj \<Rightarrow> pyval \<Rightarrow> exc + pyval" where
  "call_convert_ids_to_tokens tk ids =
     (case convert_ids_to_tokens_attr tk of None \<Rightarrow> Inl AttributeError | Some f \<Rightarrow> f ids)"

definition call_decode :: "tok_obj \<Rightarrow> pyval \<Rightarrow> decode_kwargs \<Rightarrow> exc + pyval" where
  "call_decode tk ids kw =
     (case decode_attr tk of None \<Rightarrow> Inl AttributeError | Some f \<Rightarrow> f ids kw)"

definition call_get_piece_size :: "tok_obj \<Rightarrow> exc + pyval" where
  "call_get_piece_size tk =
     (case get_piece_size_attr tk of None \<Rightarrow> Inl AttributeError | Some r \<Rightarrow> r)"


section \<open>The SentencePieceTokenizer instance\<close>

text \<open>
  The fields \<open>_tokenizer\<close>, \<open>_temp_dir\<close> and \<open>_initialized\<close> of an instance.
  \<open>__init__\<close> sets the first two to \<open>None\<close>. The flag \<open>_initialized\<close> and the logger
  come from \<open>BaseTokenizer.__init__\<close>, which is not among the sources.
  Modelled from the spec: a new variant is in state Uninitialized, so the flag starts
  as \<open>False\<close>; logging is taken to have no effect on the result.
\<close>

record tokenizer_state =
  tokenizer :: "tok_obj option"
  temp_dir :: "string option"
  initialized :: bool

definition new_tokenizer :: tokenizer_state where
  "new_tokenizer = \<lparr>tokenizer = None, temp_dir = None, initialized = False\<rparr>"

definition model_name :: string where
  "model_name = ''t5-base''"


subsection \<open>The environment of \<open>initialize\<close>\<close>

text \<open>The result objects of the file-store service: \<open>.success\<close>, \<open>.path\<close>, \<open>.error\<close>.\<close>

record op_result =
  success :: bool
  path :: string
  error :: string

text \<open>
  What \<open>initialize\<close> does to its surroundings, in order. The files are a map from
  path to contents.
\<close>

datatype event =
    EvPretrained string
  | EvImportSentencepiece
  | EvCreateDirectory string
  | EvGetFileInfo string
  | EvCreateTempDirectory string
  | EvWriteText string
  | EvTrain string string
  | EvLoad string

record world =
  files :: "string \<rightharpoonup> string"
  trace :: "event list"

definition emit :: "event \<Rightarrow> world \<Rightarrow> world" where
  "emit e w = w\<lparr>trace := trace w @ [e]\<rparr>"

text \<open>
  The answers of the external calls: each one either raises (\<open>Inl\<close>) or returns.
  \<open>get_file_info\<close> answers whether the call itself succeeded; whether the file exists is
  read from the files. \<open>spm_train\<close> maps the contents of the training file (if any) to
  the contents of the model file it writes; \<open>spm_load\<close> maps the contents of the file at
  the given path (if any) to the loaded processor; \<open>spm_processor\<close> is a processor as
  \<open>SentencePieceProcessor()\<close> returns it, before any load.
\<close>

record env =
  t5_from_pretrained :: "string \<Rightarrow> exc + tok_obj"
  import_sentencepiece :: "exc option"
  create_directory :: "string \<Rightarrow> exc + op_result"
  get_file_info :: "string \<Rightarrow> exc + bool"
  create_temp_directory :: "string \<Rightarrow> exc + op_result"
  write_text :: "string \<Rightarrow> string \<Rightarrow> exc + op_result"
  spm_train :: "string option \<Rightarrow> exc + string"
  spm_processor :: tok_obj
  spm_load :: "string option \<Rightarrow> exc + tok_obj"

definition join_path :: "string \<Rightarrow> string \<Rightarrow> string" where
  "join_path d f = d @ ''/'' @ f"

definition sample_text :: string where
  "sample_text =
     ''This is a sample text for SentencePiece training.'' @ [CHR 0x0A] @
     ''It contains some words and sentences to build a small model.'' @ [CHR 0x0A] @
     ''The model will be very limited but sufficient for demonstration.'' @ [CHR 0x0A]"


subsection \<open>\<open>initialize\<close>\<close>

text \<open>Lines 108 to 113: create the processor, load the model file, set the flag.\<close>

definition load_model ::
  "env \<Rightarrow> string \<Rightarrow> tokenizer_state \<Rightarrow> world \<Rightarrow> (exc + bool) \<times> tokenizer_state \<times> world" where
  "load_model env model_path s w =
     (let s1 = s\<lparr>tokenizer := Some (spm_processor env)\<rparr>;
          w1 = emit (EvLoad model_path) w
      in case spm_load env (files w1 model_path) of
           Inl e \<Rightarrow> (Inl e, s1, w1)
         | Inr tk \<Rightarrow> (Inr True, s1\<lparr>tokenizer := Some tk, initialized := True\<rparr>, w1))"

text \<open>Lines 78 to 106: no model file was found, so train one and go on to load it.\<close>

definition train_model ::
  "env \<Rightarrow> string \<Rightarrow> string \<Rightarrow> tokenizer_state \<Rightarrow> world
     \<Rightarrow> (exc + bool) \<times> tokenizer_state \<times> world" where
  "train_model env models_dir model_path s w =
     (let w1 = emit (EvCreateTempDirectory ''quacktokenscope_spm_'') w
      in case create_temp_directory env ''quacktokenscope_spm_'' of
           Inl e \<Rightarrow> (Inl e, s, w1)
         | Inr temp_dir_result \<Rightarrow>
             if \<not> success temp_dir_result then (Inr False, s, w1)
             else
               let s1 = s\<lparr>temp_dir := Some (path temp_dir_result)\<rparr>;
                   train_path = join_path (path temp_dir_result) ''train.txt'';
                   w2 = emit (EvWriteText train_path) w1
               in case write_text env train_path sample_text of
                    Inl e \<Rightarrow> (Inl e, s1, w2)
                  | Inr write_result \<Rightarrow>
                      if \<not> success write_result then (Inr False, s1, w2)
                      else
                        let w3 = w2\<lparr>files := (files w2)(train_path \<mapsto> sample_text)\<rparr>;
                            model_prefix = models_dir @ ''/sentencepiece'';
                            w4 = emit (EvTrain train_path model_prefix) w3
                        in case spm_train env (files w4 train_path) of
                             Inl e \<Rightarrow> (Inl e, s1, w4)
                           | Inr model \<Rightarrow>
                               load_model env model_path s1
                                 (w4\<lparr>files := (files w4)(model_prefix @ ''.model'' \<mapsto> model)\<rparr>))"

text \<open>Lines 59 to 113: the handler of the inner \<open>try\<close>, the direct SentencePiece path.\<close>

definition fallback ::
  "env \<Rightarrow> tokenizer_state \<Rightarrow> world \<Rightarrow> (exc + bool) \<times> tokenizer_state \<times> world" where
  "fallback env s w =
     (let w1 = emit EvImportSentencepiece w
      in case import_sentencepiece env of
           Some e \<Rightarrow> (Inl e, s, w1)
         | None \<Rightarrow>
             let w2 = emit (EvCreateDirectory ''./models'') w1
             in case create_directory env ''./models'' of
                  Inl e \<Rightarrow> (Inl e, s, w2)
                | Inr models_dir_result \<Rightarrow>
                    if \<not> success models_dir_result then (Inr False, s, w2)
                    else
                      let models_dir = path models_dir_result;
                          model_path = join_path models_dir ''sentencepiece.model'';
                          w3 = emit (EvGetFileInfo model_path) w2
                      in case get_file_info env model_path of
                           Inl e \<Rightarrow> (Inl e, s, w3)
                         | Inr info_success \<Rightarrow>
                             if \<not> (info_success \<and> files w3 model_path \<noteq> None)
                             then train_model env models_dir model_path s w3
                             else load_model env model_path s w3)"

text \<open>
  Lines 50 to 120. The inner handler catches every \<open>Exception\<close> of the pretrained
  attempt and runs the fallback; the outer handlers turn every \<open>Exception\<close> of the
  fallback into the result \<open>False\<close>. Assignments made before an exception stay.
\<close>

definition initialize ::
  "env \<Rightarrow> tokenizer_state \<Rightarrow> world \<Rightarrow> (exc + bool) \<times> tokenizer_state \<times> world" where
  "initialize env s w =
     (let w1 = emit (EvPretrained model_name) w
      in case t5_from_pretrained env model_name of
           Inr tk \<Rightarrow> (Inr True, s\<lparr>tokenizer := Some tk, initialized := True\<rparr>, w1)
         | Inl e \<Rightarrow>
             if is_Exception e then
               (case fallback env s w1 of
                  (Inl e', s', w') \<Rightarrow>
                    if is_Exception e' then (Inr False, s', w') else (Inl e', s', w')
                | (Inr b, s', w') \<Rightarrow> (Inr b, s', w'))
             else (Inl e, s, w1))"

text \<open>A history of calls of \<open>initialize\<close> on one instance, each in its own environment.\<close>

fun initialize_calls ::
  "env list \<Rightarrow> tokenizer_state \<Rightarrow> world \<Rightarrow> (exc + bool) list \<times> tokenizer_state \<times> world" where
  "initialize_calls [] s w = ([], s, w)"
| "initialize_calls (env # envs) s w =
     (case initialize env s w of
        (r, s1, w1) \<Rightarrow>
          (case initialize_calls envs s1 w1 of (rs, s2, w2) \<Rightarrow> (r # rs, s2, w2)))"


subsection \<open>\<open>tokenize\<close>, \<open>decode\<close>, \<open>get_vocab_size\<close>\<close>

definition tokenize :: "tokenizer_state \<Rightarrow> string \<Rightarrow> error + (pyval \<times> pyval)" where
  "tokenize s text =
     (if \<not> initialized s then Inl NotInitializedError
      else
        let tk = obj_of (tokenizer s)
        in if hasattr_encode tk then
             (case call_encode tk text (AddSpecialTokens False) of
                Inl e \<Rightarrow> Inl (Raised e)
              | Inr token_ids \<Rightarrow>
                  (case call_convert_ids_to_tokens tk token_ids of
                     Inl e \<Rightarrow> Inl (Raised e)
                   | Inr token_strs \<Rightarrow> Inr (token_ids, token_strs)))
           else
             (case call_encode tk text OutTypeInt of
                Inl e \<Rightarrow> Inl (Raised e)
              | Inr token_ids \<Rightarrow>
                  (case call_encode tk text OutTypeStr of
                     Inl e \<Rightarrow> Inl (Raised e)
                   | Inr token_strs \<Rightarrow> Inr (token_ids, token_strs))))"

definition decode :: "tokenizer_state \<Rightarrow> pyval \<Rightarrow> error + pyval" where
  "decode s token_ids =
     (if \<not> initialized s then Inl NotInitializedError
      else
        let tk = obj_of (tokenizer s)
        in if hasattr_decode tk then
             (case call_decode tk token_ids (SkipSpecialTokens True) of
                Inl e \<Rightarrow> Inl (Raised e)
              | Inr text \<Rightarrow> Inr text)
           else
             (case call_decode tk token_ids NoKwargs of
                Inl e \<Rightarrow> Inl (Raised e)
              | Inr text \<Rightarrow> Inr text))"

definition get_vocab_size :: "tokenizer_state \<Rightarrow> error + pyval" where
  "get_vocab_size s =
     (if \<not> initialized s then Inl NotInitializedError
      else
        let tk = obj_of (tokenizer s)
        in case vocab_size_attr tk of
             Some v \<Rightarrow> Inr v
           | None \<Rightarrow>
               (case call_get_piece_size tk of
                  Inl e \<Rightarrow> Inl (Raised e)
                | Inr n \<Rightarrow> Inr n))"


subsection \<open>Concrete objects and environments\<close>

text \<open>
  A wrapper object with the attributes of a pretrained tokenizer (one token per
  character), and a processor object that offers only \<open>get_piece_size\<close>.
\<close>

definition example_wrapper :: tok_obj where
  "example_wrapper =
     \<lparr>encode_attr = Some (\<lambda>text kw. Inr (PyInts (map (\<lambda>c. int (of_char c)) text))),
      convert_ids_to_tokens_attr =
        Some (\<lambda>v. case v of PyInts ids \<Rightarrow> Inr (PyStrs (map (\<lambda>i. [char_of i]) ids))
                            | _ \<Rightarrow> Inl TypeError),
      decode_attr =
        Some (\<lambda>v kw. case v of PyInts ids \<Rightarrow> Inr (PyStr (map char_of ids))
                               | _ \<Rightarrow> Inl TypeError),
      vocab_size_attr = Some (PyInt 256),
      get_piece_size_attr = None\<rparr>"

definition example_processor :: tok_obj where
  "example_processor =
     \<lparr>encode_attr = None, convert_ids_to_tokens_attr = None, decode_attr = None,
      vocab_size_attr = None, get_piece_size_attr = Some (Inr (PyInt 100))\<rparr>"

definition ok_result :: "string \<Rightarrow> op_result" where
  "ok_result p = \<lparr>success = True, path = p, error = []\<rparr>"

definition failed_result :: "string \<Rightarrow> op_result" where
  "failed_result msg = \<lparr>success = False, path = [], error = msg\<rparr>"

text \<open>
  \<open>env_offline\<close>: the pretrained model cannot be fetched, everything else works.
  \<open>env_pretrained\<close>: the pretrained model loads. \<open>env_no_backend\<close>: neither the
  pretrained model nor the sentencepiece library is available.
\<close>

definition env_offline :: env where
  "env_offline =
     \<lparr>t5_from_pretrained = (\<lambda>_. Inl OSError),
      import_sentencepiece = None,
      create_directory = (\<lambda>p. Inr (ok_result ''models'')),
      get_file_info = (\<lambda>p. Inr True),
      create_temp_directory = (\<lambda>p. Inr (ok_result ''/tmp/quacktokenscope_spm_0'')),
      write_text = (\<lambda>p t. Inr (ok_result p)),
      spm_train = (\<lambda>inp. case inp of None \<Rightarrow> Inl OSError | Some t \<Rightarrow> Inr ''model''),
      spm_processor = none_obj,
      spm_load = (\<lambda>f. case f of None \<Rightarrow> Inl OSError | Some m \<Rightarrow> Inr example_processor)\<rparr>"

definition env_pretrained :: env where
  "env_pretrained = env_offline\<lparr>t5_from_pretrained := (\<lambda>_. Inr example_wrapper)\<rparr>"

definition env_no_backend :: env where
  "env_no_backend = env_offline\<lparr>import_sentencepiece := Some ImportError\<rparr>"

definition world0 :: world where
  "world0 = \<lparr>files = Map.empty, trace = []\<rparr>"

definition example_processor_v2 :: tok_obj where
  "example_processor_v2 =
     \<lparr>encode_attr =
        Some (\<lambda>text kw. case kw of
                AddSpecialTokens b \<Rightarrow> Inl TypeError
              | OutTypeInt \<Rightarrow> Inr (PyInts (map (\<lambda>c. int (of_char c)) text))
              | OutTypeStr \<Rightarrow> Inr (PyStrs (map (\<lambda>c. [c]) text))),
      convert_ids_to_tokens_attr = None,
      decode_attr =
        Some (\<lambda>v kw. case kw of
                SkipSpecialTokens b \<Rightarrow> Inl TypeError
              | NoKwargs \<Rightarrow> (case v of PyInts ids \<Rightarrow> Inr (PyStr (map char_of ids))
                                       | _ \<Rightarrow> Inl TypeError)),
      vocab_size_attr = None,
      get_piece_size_attr = Some (Inr (PyInt 100))\<rparr>"

text \<open>
  \<open>env_offline_v2\<close>: as \<open>env_offline\<close>, but loading gives a processor whose \<open>encode\<close> and
  \<open>decode\<close> exist and take \<open>out_type\<close> only. \<open>env_readonly\<close>: the models directory
  cannot be created. \<open>env_stat_fails\<close>: the file-info call reports failure.
  \<open>world_with_model\<close>: a model file is already in place. \<open>world_with_old_model\<close>: a
  model file with other contents than training gives is in place.
\<close>

definition env_offline_v2 :: env where
  "env_offline_v2 =
     env_offline\<lparr>spm_load :=
       (\<lambda>f. case f of None \<Rightarrow> Inl OSError | Some m \<Rightarrow> Inr example_processor_v2)\<rparr>"

definition env_readonly :: env where
  "env_readonly =
     env_offline\<lparr>create_directory := (\<lambda>p. Inr (failed_result ''permission denied''))\<rparr>"

definition env_stat_fails :: env where
  "env_stat_fails = env_offline\<lparr>get_file_info := (\<lambda>p. Inr False)\<rparr>"

definition world_with_model :: world where
  "world_with_model = \<lparr>files = [''models/sentencepiece.model'' \<mapsto> ''model''], trace = []\<rparr>"

definition world_with_old_model :: world where
  "world_with_old_model =
     \<lparr>files = [''models/sentencepiece.model'' \<mapsto> ''old model''], trace = []\<rparr>"


subsection \<open>Notions used in the statements\<close>

text \<open>The events a run added to the trace.\<close>

definition new_events :: "world \<Rightarrow> world \<Rightarrow> event list" where
  "new_events w w' = drop (length (trace w)) (trace w')"

text \<open>
  A file-store call failed: it raised an \<open>Exception\<close>, or it returned a result whose
  \<open>success\<close> is false.
\<close>

definition fs_failed :: "exc + op_result \<Rightarrow> bool" where
  "fs_failed r = (case r of Inl e \<Rightarrow> is_Exception e | Inr res \<Rightarrow> \<not> success res)"

text \<open>The expression \<open>decode(tokenize(text)[0])\<close>.\<close>

definition decode_tokenize :: "tokenizer_state \<Rightarrow> string \<Rightarrow> error + pyval" where
  "decode_tokenize s text =
     (case tokenize s text of
        Inl e \<Rightarrow> Inl e
      | Inr (token_ids, token_strs) \<Rightarrow> decode s token_ids)"

text \<open>Two calls of \<open>initialize\<close> in a row on a new instance.\<close>

definition initialize_twice ::
  "env \<Rightarrow> env \<Rightarrow> world \<Rightarrow>
     ((exc + bool) \<times> tokenizer_state \<times> world) \<times> ((exc + bool) \<times> tokenizer_state \<times> world)" where
  "initialize_twice env1 env2 w =
     (let first = initialize env1 new_tokenizer w
      in (first, initialize env2 (fst (snd first)) (snd (snd first))))"


section \<open>The cost model\<close>

text \<open>
  Modelled from the spec: the pricing table of
  \<open>quacktokenscope.education.cost_calculator\<close> is not among the sources. It is a
  parameter: model name, input rate and output rate per 1000 tokens, in insertion order.
  Costs are exact rationals; the rounding of floating-point arithmetic is not modelled.
\<close>

type_synonym pricing_table = "(string \<times> rat \<times> rat) list"

record cost_breakdown =
  input_cost :: rat
  output_cost :: rat
  total_cost :: rat

datatype cost_error = UnknownModelError string

text \<open>
  A table as the spec describes it: one entry per model, rates not negative.
\<close>

definition valid_table :: "pricing_table \<Rightarrow> bool" where
  "valid_table table =
     (distinct (map fst table) \<and> list_all (\<lambda>(m, ir, or). 0 \<le> ir \<and> 0 \<le> or) table)"

text \<open>
  Modelled from the spec: the arithmetic of \<open>compute_cost\<close>, which is not among the
  sources. Section 4.3: input cost = input tokens / 1000 * input rate, output cost =
  output tokens / 1000 * output rate, total = input cost + output cost. The input
  token count is a length; the output token count is the integer given on the command
  line.
\<close>

definition cost_of :: "nat \<Rightarrow> int \<Rightarrow> rat \<times> rat \<Rightarrow> cost_breakdown" where
  "cost_of input_tokens output_tokens rates =
     (let ic = of_nat input_tokens / 1000 * fst rates;
          oc = of_int output_tokens / 1000 * snd rates
      in \<lparr>input_cost = ic, output_cost = oc, total_cost = ic + oc\<rparr>)"

text \<open>
  Modelled from the spec: \<open>compute_cost\<close>, which is not among the sources. Section
  4.3: the lookup is by exact model name and fails with \<open>UnknownModelError\<close> when the
  model is not in the table.
\<close>

definition compute_cost ::
  "pricing_table \<Rightarrow> nat \<Rightarrow> int \<Rightarrow> string \<Rightarrow> cost_error + cost_breakdown" where
  "compute_cost table input_tokens output_tokens model =
     (case map_of table model of
        None \<Rightarrow> Inl (UnknownModelError model)
      | Some rates \<Rightarrow> Inr (cost_of input_tokens output_tokens rates))"

text \<open>
  Modelled from the spec: \<open>compare_models\<close>, which is not among the sources. Section
  4.3: a mapping from model to cost breakdown over every entry of the pricing table.
  The mapping is a Python dict, which keeps insertion order: an association list in
  the order of the table.
\<close>

definition compare_models ::
  "pricing_table \<Rightarrow> nat \<Rightarrow> int \<Rightarrow> (string \<times> cost_breakdown) list" where
  "compare_models table input_tokens output_tokens =
     map (\<lambda>(m, rates). (m, cost_of input_tokens output_tokens rates)) table"

text \<open>
  Lines 114 to 121 of the command: the rows of the comparison table are the items of
  the result, sorted by total cost. Python's \<open>sorted\<close> is stable, as \<open>sort_key\<close> is. The
  rows keep the numbers; their formatting to six decimals is left out.
\<close>

definition comparison_rows ::
  "(string \<times> cost_breakdown) list \<Rightarrow> (string \<times> rat \<times> rat \<times> rat) list" where
  "comparison_rows results =
     map (\<lambda>(model_name, cost_info).
            (model_name, total_cost cost_info, input_cost cost_info, output_cost cost_info))
         (sort_key (\<lambda>x. total_cost (snd x)) results)"

definition example_table :: pricing_table where
  "example_table =
     [(''gpt-4-turbo'', 1 / 100, 3 / 100),
      (''gpt-3.5-turbo'', 1 / 2000, 3 / 2000),
      (''claude-3-opus'', 3 / 200, 3 / 40),
      (''gpt-4-turbo-preview'', 1 / 100, 3 / 100)]"


section \<open>The scenario explorer\<close>

text \<open>
  A tokenizer instance as the command and the explorer use it: its \<open>tokenize\<close> method.
  For a SentencePieceTokenizer in state \<open>s\<close> this is \<open>tokenize s\<close>.
\<close>

type_synonym tokenizer_fn = "string \<Rightarrow> error + (pyval \<times> pyval)"

datatype failure = TokenizerFailure error | PyFailure exc | CostFailure cost_error

text \<open>Python's \<open>len\<close>.\<close>

fun py_len :: "pyval \<Rightarrow> exc + nat" where
  "py_len (PyInts xs) = Inr (length xs)"
| "py_len (PyStrs xs) = Inr (length xs)"
| "py_len (PyStr s) = Inr (length s)"
| "py_len (PyInt n) = Inl TypeError"

text \<open>The expression \<open>len(tokenizer_instance.tokenize(text)[0])\<close> of line 84.\<close>

definition count_tokens :: "tokenizer_fn \<Rightarrow> string \<Rightarrow> failure + nat" where
  "count_tokens tok text =
     (case tok text of
        Inl e \<Rightarrow> Inl (TokenizerFailure e)
      | Inr (token_ids, token_strs) \<Rightarrow>
          (case py_len token_ids of Inl e \<Rightarrow> Inl (PyFailure e) | Inr n \<Rightarrow> Inr n))"

datatype sweep =
    OutputMultipliers "rat list"
  | AlternateTokenizers "(string \<times> tokenizer_fn) list"
  | AlternateModels "string list"

datatype varied = OutputMultiplier rat | TokenizerChoice string | ModelChoice string

record scenario =
  label :: string
  varied_parameter :: varied
  breakdown :: cost_breakdown

text \<open>
  What the spec leaves open is a parameter: how a scenario is labelled, the output
  token count that a multiplier implies for a given input token count, and the output
  token count of the scenarios that vary the tokenizer or the model.
\<close>

record conventions =
  scenario_label :: "varied \<Rightarrow> string"
  implied_output_tokens :: "rat \<Rightarrow> nat \<Rightarrow> int"
  base_output_tokens :: "nat \<Rightarrow> int"

text \<open>The results of a sequence of steps, up to the first failure.\<close>

fun collect :: "('e + 'a) list \<Rightarrow> 'e + 'a list" where
  "collect [] = Inr []"
| "collect (x # xs) =
     (case x of
        Inl e \<Rightarrow> Inl e
      | Inr v \<Rightarrow> (case collect xs of Inl e \<Rightarrow> Inl e | Inr vs \<Rightarrow> Inr (v # vs)))"

definition scenario_for ::
  "conventions \<Rightarrow> pricing_table \<Rightarrow> varied \<Rightarrow> nat \<Rightarrow> int \<Rightarrow> string \<Rightarrow> failure + scenario" where
  "scenario_for conv table v input_tokens output_tokens model =
     (case compute_cost table input_tokens output_tokens model of
        Inl e \<Rightarrow> Inl (CostFailure e)
      | Inr c \<Rightarrow> Inr \<lparr>label = scenario_label conv v, varied_parameter = v, breakdown = c\<rparr>)"

text \<open>
  Modelled from the spec: \<open>run_what_if_analysis\<close> of
  \<open>quacktokenscope.education.challenges.what_if\<close>, which is not among the sources.
  Section 4.4: given a text, a tokenizer, a model and a declared sweep (output-token
  multipliers, or the substitution of other tokenizers or models), an ordered sequence
  of scenarios, each pairing a label with the cost breakdown that the cost model gives
  for the token counts of that scenario.
\<close>

definition run_what_if_analysis ::
  "conventions \<Rightarrow> pricing_table \<Rightarrow> string \<Rightarrow> tokenizer_fn \<Rightarrow> string \<Rightarrow> sweep
     \<Rightarrow> failure + scenario list" where
  "run_what_if_analysis conv table text tok model sw =
     (case sw of
        OutputMultipliers ms \<Rightarrow>
          (case count_tokens tok text of
             Inl f \<Rightarrow> Inl f
           | Inr n \<Rightarrow>
               collect (map (\<lambda>m. scenario_for conv table (OutputMultiplier m) n
                                   (implied_output_tokens conv m n) model) ms))
      | AlternateTokenizers toks \<Rightarrow>
          collect (map (\<lambda>(name, t).
                          case count_tokens t text of
                            Inl f \<Rightarrow> Inl f
                          | Inr n \<Rightarrow> scenario_for conv table (TokenizerChoice name) n
                                       (base_output_tokens conv n) model) toks)
      | AlternateModels models \<Rightarrow>
          (case count_tokens tok text of
             Inl f \<Rightarrow> Inl f
           | Inr n \<Rightarrow>
               collect (map (\<lambda>m. scenario_for conv table (ModelChoice m) n
                                   (base_output_tokens conv n) m) models)))"



section \<open>The cost calculator command\<close>

text \<open>
  What the command prints, with the values it prints rather than the formatted text.
  \<open>CostSummary\<close> is the call of \<open>display_cost_summary\<close> with its arguments,
  \<open>WhatIfResults\<close> the call of \<open>display_what_if_results\<close>; both render only and are not
  among the sources.
\<close>

datatype message =
    ReadInputFromFile string
  | FailedToReadFile exc
  | FailedToInitializePlugin string
  | TokenizerNotFound string "string list"

datatype action =
    PrintInfo message
  | PrintError message int
  | CostSummary string nat int string
  | WhatIfResults "scenario list"
  | ComparisonTable "(string \<times> rat \<times> rat \<times> rat) list"

text \<open>
  How the command ends: it runs to its end, it stops after \<open>print_error\<close> with an exit
  code, or an exception leaves it.
\<close>

datatype outcome = Completed | Stopped | Propagated failure

text \<open>
  The surroundings of the command: the file system as \<open>pathlib\<close> and \<open>open\<close> show it
  (\<open>Path.exists\<close> and \<open>Path.is_file\<close> answer or raise, as for a name that is too long),
  the result of \<open>TokenScopePlugin().initialize()\<close> (an error message, or the tokenizers
  of the plugin by name), the pricing table, and the sweep and conventions of the
  what-if analysis.
\<close>

record cli_env =
  path_exists :: "string \<Rightarrow> exc + bool"
  path_is_file :: "string \<Rightarrow> exc + bool"
  open_read :: "string \<Rightarrow> exc + string"
  plugin_initialize :: "string + (string \<times> tokenizer_fn) list"
  pricing :: pricing_table
  what_if_conventions :: conventions
  what_if_sweep :: sweep

text \<open>Lines 64 to 123: the command from the plugin on, for the text it works on.\<close>

definition run_command ::
  "cli_env \<Rightarrow> string \<Rightarrow> string \<Rightarrow> int \<Rightarrow> string \<Rightarrow> bool \<Rightarrow> bool \<Rightarrow> action list \<times> outcome" where
  "run_command env input_text model output_tokens tokenizer_name what_if compare_models_flag =
     (case plugin_initialize env of
        Inl err \<Rightarrow> ([PrintError (FailedToInitializePlugin err) 1], Stopped)
      | Inr available_tokenizers \<Rightarrow>
          (case map_of available_tokenizers tokenizer_name of
             None \<Rightarrow>
               ([PrintError (TokenizerNotFound tokenizer_name (map fst available_tokenizers)) 1],
                Stopped)
           | Some tokenizer_instance \<Rightarrow>
               (case count_tokens tokenizer_instance input_text of
                  Inl f \<Rightarrow> ([], Propagated f)
                | Inr input_tokens \<Rightarrow>
                    let summary = [CostSummary input_text input_tokens output_tokens model];
                        analysis =
                          (if what_if then
                             (case run_what_if_analysis (what_if_conventions env) (pricing env)
                                     input_text tokenizer_instance model (what_if_sweep env) of
                                Inl f \<Rightarrow> Inl f
                              | Inr scs \<Rightarrow> Inr [WhatIfResults scs])
                           else Inr [])
                    in case analysis of
                         Inl f \<Rightarrow> (summary, Propagated f)
                       | Inr shown \<Rightarrow>
                           (summary @ shown @
                              (if compare_models_flag then
                                 [ComparisonTable
                                    (comparison_rows
                                       (compare_models (pricing env) input_tokens output_tokens))]
                               else []),
                            Completed))))"

text \<open>
  Line 55, the condition \<open>input_path.exists() and input_path.is_file()\<close>: \<open>is_file\<close> is
  asked only when \<open>exists\<close> answered \<open>True\<close>.
\<close>

definition is_existing_file :: "cli_env \<Rightarrow> string \<Rightarrow> exc + bool" where
  "is_existing_file env p =
     (case path_exists env p of
        Inl e \<Rightarrow> Inl e
      | Inr found \<Rightarrow> if found then path_is_file env p else Inr False)"

text \<open>
  Lines 53 to 62, then the rest: when the input text names an existing regular file,
  the file is read, its contents are the text and an info line names the file; a
  failure to read stops the command. The condition is outside the \<open>try\<close>.
\<close>

definition handle_calculate_cost_command ::
  "cli_env \<Rightarrow> string \<Rightarrow> string \<Rightarrow> int \<Rightarrow> string \<Rightarrow> bool \<Rightarrow> bool \<Rightarrow> action list \<times> outcome" where
  "handle_calculate_cost_command env input_text model output_tokens tokenizer_name what_if
       compare_models_flag =
     (case is_existing_file env input_text of
        Inl e \<Rightarrow> ([], Propagated (PyFailure e))
      | Inr is_file \<Rightarrow>
          if is_file then
            (case open_read env input_text of
               Inl e \<Rightarrow>
                 if is_Exception e then ([PrintError (FailedToReadFile e) 1], Stopped)
                 else ([], Propagated (PyFailure e))
             | Inr contents \<Rightarrow>
                 (case run_command env contents model output_tokens tokenizer_name what_if
                         compare_models_flag of
                    (acts, out) \<Rightarrow> (PrintInfo (ReadInputFromFile input_text) # acts, out)))
          else run_command env input_text model output_tokens tokenizer_name what_if
                 compare_models_flag)"

text \<open>
  A concrete setting: \<open>notes.txt\<close> is a readable file, \<open>locked.txt\<close> a file that cannot
  be read, \<open>models\<close> a directory; the plugin offers the example wrapper.
\<close>

definition example_conventions :: conventions where
  "example_conventions =
     \<lparr>scenario_label = (\<lambda>v. case v of OutputMultiplier m \<Rightarrow> ''output''
                                    | TokenizerChoice n \<Rightarrow> n | ModelChoice m \<Rightarrow> m),
      implied_output_tokens = (\<lambda>m n. \<lfloor>m * of_nat n\<rfloor>),
      base_output_tokens = (\<lambda>n. 0)\<rparr>"

definition example_instance :: tokenizer_state where
  "example_instance = \<lparr>tokenizer = Some example_wrapper, temp_dir = None, initialized = True\<rparr>"

definition example_cli_env :: cli_env where
  "example_cli_env =
     \<lparr>path_exists = (\<lambda>p. Inr (p \<in> {''notes.txt'', ''locked.txt'', ''models''})),
      path_is_file = (\<lambda>p. Inr (p \<in> {''notes.txt'', ''locked.txt''})),
      open_read = (\<lambda>p. if p = ''notes.txt'' then Inr ''hello'' else Inl OSError),
      plugin_initialize = Inr [(''sentencepiece'', tokenize example_instance)],
      pricing = example_table,
      what_if_conventions = example_conventions,
      what_if_sweep = OutputMultipliers [0, 1 / 2, 1, 2]\<rparr>"


section \<open>Properties of the tokenizer variant\<close>

lemma initialize_flag:
  "initialize env s w = (r, s', w') \<Longrightarrow> initialized s' = (initialized s \<or> r = Inr True)"
  by (auto simp: initialize_def fallback_def train_model_def load_model_def Let_def
      split: sum.splits option.splits if_splits prod.splits)

lemma initialize_calls_flag:
  "initialize_calls envs s w = (rs, s', w') \<Longrightarrow>
     initialized s' = (initialized s \<or> Inr True \<in> set rs)"
proof (induction envs arbitrary: s w rs s' w')
  case Nil
  then show ?case by simp
next
  case (Cons env envs)
  obtain r s1 w1 where step: "initialize env s w = (r, s1, w1)"
    by (cases "initialize env s w") auto
  obtain rs1 s2 w2 where rest: "initialize_calls envs s1 w1 = (rs1, s2, w2)"
    by (cases "initialize_calls envs s1 w1") auto
  from Cons.prems step rest have eqs: "rs = r # rs1" "s' = s2"
    by auto
  from Cons.IH [OF rest] initialize_flag [OF step] eqs show ?case
    by auto
qed

text \<open>
  C2. On an instance that starts new and has seen any history of \<open>initialize\<close> calls,
  \<open>tokenize\<close>, \<open>decode\<close> and \<open>get_vocab_size\<close> fail with the not-initialized error as
  long as no call of the history returned success, and none of them fails with that
  error once a call has returned success.
\<close>

theorem not_initialized_guard:
  assumes "initialize_calls envs new_tokenizer w = (rs, s, w')"
  shows "(Inr True \<notin> set rs \<longrightarrow>
            tokenize s text = Inl NotInitializedError \<and>
            decode s ids = Inl NotInitializedError \<and>
            get_vocab_size s = Inl NotInitializedError) \<and>
         (Inr True \<in> set rs \<longrightarrow>
            tokenize s text \<noteq> Inl NotInitializedError \<and>
            decode s ids \<noteq> Inl NotInitializedError \<and>
            get_vocab_size s \<noteq> Inl NotInitializedError)"
proof -
  from initialize_calls_flag [OF assms]
  have flag: "initialized s = (Inr True \<in> set rs)"
    by (simp add: new_tokenizer_def)
  show ?thesis
    unfolding tokenize_def decode_def get_vocab_size_def
    by (simp add: flag Let_def split: sum.splits option.splits)
qed

theorem not_initialized_guard_witness:
  "(Inr True \<notin> set (fst (initialize_calls [env_no_backend] new_tokenizer world0)) \<and>
    tokenize (fst (snd (initialize_calls [env_no_backend] new_tokenizer world0))) ''ab''
      = Inl NotInitializedError \<and>
    decode (fst (snd (initialize_calls [env_no_backend] new_tokenizer world0))) (PyInts [1])
      = Inl NotInitializedError \<and>
    get_vocab_size (fst (snd (initialize_calls [env_no_backend] new_tokenizer world0)))
      = Inl NotInitializedError) \<and>
   (Inr True \<in> set (fst (initialize_calls [env_no_backend, env_pretrained] new_tokenizer world0)) \<and>
    tokenize (fst (snd (initialize_calls [env_no_backend, env_pretrained] new_tokenizer world0))) ''ab''
      \<noteq> Inl NotInitializedError \<and>
    decode (fst (snd (initialize_calls [env_no_backend, env_pretrained] new_tokenizer world0))) (PyInts [1])
      \<noteq> Inl NotInitializedError \<and>
    get_vocab_size (fst (snd (initialize_calls [env_no_backend, env_pretrained] new_tokenizer world0)))
      \<noteq> Inl NotInitializedError)"
proof -
  have failed: "fst (initialize_calls [env_no_backend] new_tokenizer world0) = [Inr False]"
    by (simp add: initialize_def fallback_def env_no_backend_def env_offline_def)
  have succeeded:
    "fst (initialize_calls [env_no_backend, env_pretrained] new_tokenizer world0)
       = [Inr False, Inr True]"
    by (simp add: initialize_def fallback_def env_no_backend_def env_pretrained_def
        env_offline_def)
  have a: "initialize_calls [env_no_backend] new_tokenizer world0 =
      (fst (initialize_calls [env_no_backend] new_tokenizer world0),
       fst (snd (initialize_calls [env_no_backend] new_tokenizer world0)),
       snd (snd (initialize_calls [env_no_backend] new_tokenizer world0)))"
    by simp
  have b: "initialize_calls [env_no_backend, env_pretrained] new_tokenizer world0 =
      (fst (initialize_calls [env_no_backend, env_pretrained] new_tokenizer world0),
       fst (snd (initialize_calls [env_no_backend, env_pretrained] new_tokenizer world0)),
       snd (snd (initialize_calls [env_no_backend, env_pretrained] new_tokenizer world0)))"
    by simp
  from not_initialized_guard [OF a, of "''ab''" "PyInts [1]"]
       not_initialized_guard [OF b, of "''ab''" "PyInts [1]"]
  show ?thesis
    unfolding failed succeeded by simp
qed


subsection \<open>The order of the strategies\<close>


lemmas init_defs = initialize_def fallback_def train_model_def load_model_def emit_def
  new_events_def Let_def join_path_def

lemmas example_defs = env_offline_def env_pretrained_def env_no_backend_def env_offline_v2_def
  env_readonly_def env_stat_fails_def world0_def world_with_model_def world_with_old_model_def
  ok_result_def failed_result_def new_tokenizer_def

lemma run_triple: "f = (fst f, fst (snd f), snd (snd f))"
  by simp


lemma initialize_first_event:
  assumes "initialize env s w = (r, s', w')"
  shows "take 1 (new_events w w') = [EvPretrained model_name]"
  using assms
  by (auto simp: init_defs split: sum.splits option.splits if_splits prod.splits)

lemma initialize_pretrained_wins:
  assumes "initialize env s w = (r, s', w')" "t5_from_pretrained env model_name = Inr tk"
  shows "r = Inr True \<and> new_events w w' = [EvPretrained model_name] \<and>
         s' = s\<lparr>tokenizer := Some tk, initialized := True\<rparr>"
  using assms
  by (auto simp: initialize_def emit_def new_events_def Let_def)

lemma initialize_loads_artifact:
  assumes "initialize env s w = (r, s', w')"
    "t5_from_pretrained env model_name = Inl e" "is_Exception e"
    "import_sentencepiece env = None"
    "create_directory env ''./models'' = Inr d" "success d"
    "get_file_info env (join_path (path d) ''sentencepiece.model'') = Inr True"
    "files w (join_path (path d) ''sentencepiece.model'') \<noteq> None"
  shows "new_events w w' =
           [EvPretrained model_name, EvImportSentencepiece, EvCreateDirectory ''./models'',
            EvGetFileInfo (join_path (path d) ''sentencepiece.model''),
            EvLoad (join_path (path d) ''sentencepiece.model'')] \<and>
         (r = Inr True) =
           (\<exists>tk. spm_load env (files w (join_path (path d) ''sentencepiece.model'')) = Inr tk)"
  using assms
  by (cases "spm_load env (files w (join_path (path d) ''sentencepiece.model''))")
     (auto simp: init_defs split: if_splits)

lemma initialize_trains_without_artifact:
  assumes "initialize env s w = (r, s', w')"
    "t5_from_pretrained env model_name = Inl e" "is_Exception e"
    "import_sentencepiece env = None"
    "create_directory env ''./models'' = Inr d" "success d"
    "get_file_info env (join_path (path d) ''sentencepiece.model'') = Inr ok"
    "\<not> (ok \<and> files w (join_path (path d) ''sentencepiece.model'') \<noteq> None)"
    "create_temp_directory env ''quacktokenscope_spm_'' = Inr t" "success t"
    "write_text env (join_path (path t) ''train.txt'') sample_text = Inr wr" "success wr"
    "spm_train env (Some sample_text) = Inr model"
  shows "new_events w w' =
           [EvPretrained model_name, EvImportSentencepiece, EvCreateDirectory ''./models'',
            EvGetFileInfo (join_path (path d) ''sentencepiece.model''),
            EvCreateTempDirectory ''quacktokenscope_spm_'',
            EvWriteText (join_path (path t) ''train.txt''),
            EvTrain (join_path (path t) ''train.txt'') (path d @ ''/sentencepiece''),
            EvLoad (join_path (path d) ''sentencepiece.model'')] \<and>
         files w' (join_path (path d) ''sentencepiece.model'') = Some model \<and>
         (r = Inr True) = (\<exists>tk. spm_load env (Some model) = Inr tk)"
  using assms
  by (cases "spm_load env (Some model)") (auto simp: init_defs split: if_splits)


lemma initialize_success_last:
  assumes "initialize env s w = (r, s', w')" "r = Inr True"
  shows "initialized s' \<and>
         ((\<exists>tk. t5_from_pretrained env model_name = Inr tk \<and> tokenizer s' = Some tk \<and>
                new_events w w' = [EvPretrained model_name]) \<or>
          (\<exists>p tk. last (new_events w w') = EvLoad p \<and> spm_load env (files w' p) = Inr tk \<and>
                tokenizer s' = Some tk))"
  using assms
  by (auto simp: init_defs split: sum.splits option.splits if_splits prod.splits)

lemma initialize_train_only_without_artifact:
  assumes "initialize env s w = (r, s', w')" "EvTrain a b \<in> set (new_events w w')"
  shows "\<exists>d ok. create_directory env ''./models'' = Inr d \<and>
           get_file_info env (join_path (path d) ''sentencepiece.model'') = Inr ok \<and>
           \<not> (ok \<and> files w (join_path (path d) ''sentencepiece.model'') \<noteq> None)"
  using assms
  by (auto simp: init_defs split: sum.splits option.splits if_splits prod.splits)


lemma ex_runs:
  "initialize env_pretrained new_tokenizer world0 =
     (Inr True, \<lparr>tokenizer = Some example_wrapper, temp_dir = None, initialized = True\<rparr>,
      \<lparr>files = Map.empty, trace = [EvPretrained model_name]\<rparr>)"
  "fst (initialize env_offline new_tokenizer world_with_model) = Inr True"
  "new_events world_with_model (snd (snd (initialize env_offline new_tokenizer world_with_model)))
     = [EvPretrained model_name, EvImportSentencepiece, EvCreateDirectory ''./models'',
        EvGetFileInfo ''models/sentencepiece.model'', EvLoad ''models/sentencepiece.model'']"
  "fst (initialize env_offline new_tokenizer world0) = Inr True"
  "fst (snd (initialize env_offline new_tokenizer world0)) =
     \<lparr>tokenizer = Some example_processor, temp_dir = Some ''/tmp/quacktokenscope_spm_0'',
      initialized = True\<rparr>"
  "new_events world0 (snd (snd (initialize env_offline new_tokenizer world0)))
     = [EvPretrained model_name, EvImportSentencepiece, EvCreateDirectory ''./models'',
        EvGetFileInfo ''models/sentencepiece.model'',
        EvCreateTempDirectory ''quacktokenscope_spm_'',
        EvWriteText ''/tmp/quacktokenscope_spm_0/train.txt'',
        EvTrain ''/tmp/quacktokenscope_spm_0/train.txt'' ''models/sentencepiece'',
        EvLoad ''models/sentencepiece.model'']"
  "fst (snd (initialize env_offline_v2 new_tokenizer world0)) =
     \<lparr>tokenizer = Some example_processor_v2, temp_dir = Some ''/tmp/quacktokenscope_spm_0'',
      initialized = True\<rparr>"
  "fst (initialize env_readonly new_tokenizer world0) = Inr False"
  "new_events world0 (snd (snd (initialize env_readonly new_tokenizer world0)))
     = [EvPretrained model_name, EvImportSentencepiece, EvCreateDirectory ''./models'']"
  by (simp_all add: init_defs example_defs)


lemma create_directory_failure:
  assumes "initialize env s w = (r, s', w')"
      and "EvCreateDirectory ''./models'' \<in> set (new_events w w')"
      and "fs_failed (create_directory env ''./models'')"
  shows "r = Inr False \<and> initialized s' = initialized s \<and> tokenizer s' = tokenizer s"
  using assms
  by (auto simp: init_defs fs_failed_def split: sum.splits option.splits if_splits prod.splits)

lemma create_temp_directory_failure:
  assumes "initialize env s w = (r, s', w')"
      and "EvCreateTempDirectory ''quacktokenscope_spm_'' \<in> set (new_events w w')"
      and "fs_failed (create_temp_directory env ''quacktokenscope_spm_'')"
  shows "r = Inr False \<and> initialized s' = initialized s \<and> tokenizer s' = tokenizer s"
  using assms
  by (auto simp: init_defs fs_failed_def split: sum.splits option.splits if_splits prod.splits)

lemma write_text_failure:
  assumes "initialize env s w = (r, s', w')"
      and "EvWriteText p \<in> set (new_events w w')"
      and "fs_failed (write_text env p sample_text)"
  shows "r = Inr False \<and> initialized s' = initialized s \<and> tokenizer s' = tokenizer s"
  using assms
  by (auto simp: init_defs fs_failed_def split: sum.splits option.splits if_splits prod.splits)

lemma initialize_success_cases:
  assumes "initialize env s w = (Inr True, s1, w1)"
  shows "(\<exists>tk. t5_from_pretrained env model_name = Inr tk \<and> tokenizer s1 = Some tk \<and>
               initialized s1) \<or>
         (\<exists>e d ok tk. t5_from_pretrained env model_name = Inl e \<and> is_Exception e \<and>
               import_sentencepiece env = None \<and>
               create_directory env ''./models'' = Inr d \<and> success d \<and>
               get_file_info env (join_path (path d) ''sentencepiece.model'') = Inr ok \<and>
               files w1 (join_path (path d) ''sentencepiece.model'') \<noteq> None \<and>
               spm_load env (files w1 (join_path (path d) ''sentencepiece.model'')) = Inr tk \<and>
               tokenizer s1 = Some tk \<and> initialized s1)"
  using assms
  by (auto simp: init_defs split: sum.splits option.splits if_splits prod.splits)


text \<open>
  C1, as the code has it. \<open>initialize\<close> tries its strategies in a fixed order and the
  first success wins. The pretrained wrapper is always attempted first, and when it
  loads nothing else is attempted and the result is success. When it fails and the
  file-info call succeeds on a model file that exists, that file is loaded and no
  training is attempted; the result is success exactly when the load returns. In every
  other case of the file-info answer (the model file does not exist, or the call reports
  failure, whether or not a model file is there) a model is trained, persisted at the
  path of the model file and loaded from there; training is attempted in no other case.
  The result is success only when the pretrained load or the load of the model file
  succeeded, and that successful step is the last thing the call does.
\<close>

theorem initialize_strategy_order:
  assumes run: "initialize env s w = (r, s', w')"
  shows "take 1 (new_events w w') = [EvPretrained model_name] \<and>
    (\<forall>tk. t5_from_pretrained env model_name = Inr tk \<longrightarrow>
       r = Inr True \<and> new_events w w' = [EvPretrained model_name] \<and>
       s' = s\<lparr>tokenizer := Some tk, initialized := True\<rparr>) \<and>
    (\<forall>e d. t5_from_pretrained env model_name = Inl e \<longrightarrow> is_Exception e \<longrightarrow>
       import_sentencepiece env = None \<longrightarrow>
       create_directory env ''./models'' = Inr d \<longrightarrow> success d \<longrightarrow>
       get_file_info env (join_path (path d) ''sentencepiece.model'') = Inr True \<longrightarrow>
       files w (join_path (path d) ''sentencepiece.model'') \<noteq> None \<longrightarrow>
       new_events w w' =
         [EvPretrained model_name, EvImportSentencepiece, EvCreateDirectory ''./models'',
          EvGetFileInfo (join_path (path d) ''sentencepiece.model''),
          EvLoad (join_path (path d) ''sentencepiece.model'')] \<and>
       (r = Inr True) =
         (\<exists>tk. spm_load env (files w (join_path (path d) ''sentencepiece.model'')) = Inr tk)) \<and>
    (\<forall>e d ok t wr model. t5_from_pretrained env model_name = Inl e \<longrightarrow> is_Exception e \<longrightarrow>
       import_sentencepiece env = None \<longrightarrow>
       create_directory env ''./models'' = Inr d \<longrightarrow> success d \<longrightarrow>
       get_file_info env (join_path (path d) ''sentencepiece.model'') = Inr ok \<longrightarrow>
       \<not> (ok \<and> files w (join_path (path d) ''sentencepiece.model'') \<noteq> None) \<longrightarrow>
       create_temp_directory env ''quacktokenscope_spm_'' = Inr t \<longrightarrow> success t \<longrightarrow>
       write_text env (join_path (path t) ''train.txt'') sample_text = Inr wr \<longrightarrow>
       success wr \<longrightarrow>
       spm_train env (Some sample_text) = Inr model \<longrightarrow>
       new_events w w' =
         [EvPretrained model_name, EvImportSentencepiece, EvCreateDirectory ''./models'',
          EvGetFileInfo (join_path (path d) ''sentencepiece.model''),
          EvCreateTempDirectory ''quacktokenscope_spm_'',
          EvWriteText (join_path (path t) ''train.txt''),
          EvTrain (join_path (path t) ''train.txt'') (path d @ ''/sentencepiece''),
          EvLoad (join_path (path d) ''sentencepiece.model'')] \<and>
       files w' (join_path (path d) ''sentencepiece.model'') = Some model \<and>
       (r = Inr True) = (\<exists>tk. spm_load env (Some model) = Inr tk)) \<and>
    (\<forall>a b. EvTrain a b \<in> set (new_events w w') \<longrightarrow>
       (\<exists>d ok. create_directory env ''./models'' = Inr d \<and>
          get_file_info env (join_path (path d) ''sentencepiece.model'') = Inr ok \<and>
          \<not> (ok \<and> files w (join_path (path d) ''sentencepiece.model'') \<noteq> None))) \<and>
    (r = Inr True \<longrightarrow>
       initialized s' \<and>
       ((\<exists>tk. t5_from_pretrained env model_name = Inr tk \<and> tokenizer s' = Some tk \<and>
              new_events w w' = [EvPretrained model_name]) \<or>
        (\<exists>p tk. last (new_events w w') = EvLoad p \<and> spm_load env (files w' p) = Inr tk \<and>
              tokenizer s' = Some tk)))"
proof -
  note c1 = initialize_first_event [OF run]
  have c2: "\<forall>tk. t5_from_pretrained env model_name = Inr tk \<longrightarrow>
       r = Inr True \<and> new_events w w' = [EvPretrained model_name] \<and>
       s' = s\<lparr>tokenizer := Some tk, initialized := True\<rparr>"
    using initialize_pretrained_wins [OF run] by blast
  have c3: "\<forall>e d. t5_from_pretrained env model_name = Inl e \<longrightarrow> is_Exception e \<longrightarrow>
       import_sentencepiece env = None \<longrightarrow>
       create_directory env ''./models'' = Inr d \<longrightarrow> success d \<longrightarrow>
       get_file_info env (join_path (path d) ''sentencepiece.model'') = Inr True \<longrightarrow>
       files w (join_path (path d) ''sentencepiece.model'') \<noteq> None \<longrightarrow>
       new_events w w' =
         [EvPretrained model_name, EvImportSentencepiece, EvCreateDirectory ''./models'',
          EvGetFileInfo (join_path (path d) ''sentencepiece.model''),
          EvLoad (join_path (path d) ''sentencepiece.model'')] \<and>
       (r = Inr True) =
         (\<exists>tk. spm_load env (files w (join_path (path d) ''sentencepiece.model'')) = Inr tk)"
    by (intro allI impI) (rule initialize_loads_artifact [OF run])
  have c4: "\<forall>e d ok t wr model. t5_from_pretrained env model_name = Inl e \<longrightarrow> is_Exception e \<longrightarrow>
       import_sentencepiece env = None \<longrightarrow>
       create_directory env ''./models'' = Inr d \<longrightarrow> success d \<longrightarrow>
       get_file_info env (join_path (path d) ''sentencepiece.model'') = Inr ok \<longrightarrow>
       \<not> (ok \<and> files w (join_path (path d) ''sentencepiece.model'') \<noteq> None) \<longrightarrow>
       create_temp_directory env ''quacktokenscope_spm_'' = Inr t \<longrightarrow> success t \<longrightarrow>
       write_text env (join_path (path t) ''train.txt'') sample_text = Inr wr \<longrightarrow>
       success wr \<longrightarrow>
       spm_train env (Some sample_text) = Inr model \<longrightarrow>
       new_events w w' =
         [EvPretrained model_name, EvImportSentencepiece, EvCreateDirectory ''./models'',
          EvGetFileInfo (join_path (path d) ''sentencepiece.model''),
          EvCreateTempDirectory ''quacktokenscope_spm_'',
          EvWriteText (join_path (path t) ''train.txt''),
          EvTrain (join_path (path t) ''train.txt'') (path d @ ''/sentencepiece''),
          EvLoad (join_path (path d) ''sentencepiece.model'')] \<and>
       files w' (join_path (path d) ''sentencepiece.model'') = Some model \<and>
       (r = Inr True) = (\<exists>tk. spm_load env (Some model) = Inr tk)"
    by (intro allI impI) (rule initialize_trains_without_artifact [OF run])
  have c5: "\<forall>a b. EvTrain a b \<in> set (new_events w w') \<longrightarrow>
       (\<exists>d ok. create_directory env ''./models'' = Inr d \<and>
          get_file_info env (join_path (path d) ''sentencepiece.model'') = Inr ok \<and>
          \<not> (ok \<and> files w (join_path (path d) ''sentencepiece.model'') \<noteq> None))"
    by (intro allI impI) (rule initialize_train_only_without_artifact [OF run])
  have c6: "r = Inr True \<longrightarrow>
       initialized s' \<and>
       ((\<exists>tk. t5_from_pretrained env model_name = Inr tk \<and> tokenizer s' = Some tk \<and>
              new_events w w' = [EvPretrained model_name]) \<or>
        (\<exists>p tk. last (new_events w w') = EvLoad p \<and> spm_load env (files w' p) = Inr tk \<and>
              tokenizer s' = Some tk))"
    by (intro impI) (rule initialize_success_last [OF run])
  show ?thesis
    by (rule conjI [OF c1 conjI [OF c2 conjI [OF c3 conjI [OF c4 conjI [OF c5 c6]]]]])
qed

theorem initialize_strategy_order_witness:
  "(t5_from_pretrained env_pretrained model_name = Inr example_wrapper \<and>
    fst (initialize env_pretrained new_tokenizer world0) = Inr True \<and>
    new_events world0 (snd (snd (initialize env_pretrained new_tokenizer world0)))
      = [EvPretrained model_name]) \<and>
   (files world_with_model ''models/sentencepiece.model'' \<noteq> None \<and>
    fst (initialize env_offline new_tokenizer world_with_model) = Inr True \<and>
    new_events world_with_model
        (snd (snd (initialize env_offline new_tokenizer world_with_model)))
      = [EvPretrained model_name, EvImportSentencepiece, EvCreateDirectory ''./models'',
         EvGetFileInfo ''models/sentencepiece.model'', EvLoad ''models/sentencepiece.model'']) \<and>
   (files world0 ''models/sentencepiece.model'' = None \<and>
    fst (initialize env_offline new_tokenizer world0) = Inr True \<and>
    EvTrain ''/tmp/quacktokenscope_spm_0/train.txt'' ''models/sentencepiece''
      \<in> set (new_events world0 (snd (snd (initialize env_offline new_tokenizer world0)))) \<and>
    files (snd (snd (initialize env_offline new_tokenizer world0)))
      ''models/sentencepiece.model'' = Some ''model'') \<and>
   (get_file_info env_stat_fails ''models/sentencepiece.model'' = Inr False \<and>
    files world_with_old_model ''models/sentencepiece.model'' \<noteq> None \<and>
    fst (initialize env_stat_fails new_tokenizer world_with_old_model) = Inr True \<and>
    EvTrain ''/tmp/quacktokenscope_spm_0/train.txt'' ''models/sentencepiece''
      \<in> set (new_events world_with_old_model
                 (snd (snd (initialize env_stat_fails new_tokenizer world_with_old_model)))) \<and>
    files (snd (snd (initialize env_stat_fails new_tokenizer world_with_old_model)))
      ''models/sentencepiece.model'' = Some ''model'')"
proof -
  note a = initialize_strategy_order [OF run_triple [of "initialize env_pretrained new_tokenizer world0"]]
  note d = initialize_strategy_order
    [OF run_triple [of "initialize env_stat_fails new_tokenizer world_with_old_model"]]
  have sf: "t5_from_pretrained env_stat_fails model_name = Inl OSError" "is_Exception OSError"
    "import_sentencepiece env_stat_fails = None"
    "create_directory env_stat_fails ''./models'' = Inr (ok_result ''models'')"
    "success (ok_result ''models'')"
    "get_file_info env_stat_fails (join_path (path (ok_result ''models'')) ''sentencepiece.model'')
       = Inr False"
    "create_temp_directory env_stat_fails ''quacktokenscope_spm_''
       = Inr (ok_result ''/tmp/quacktokenscope_spm_0'')"
    "success (ok_result ''/tmp/quacktokenscope_spm_0'')"
    "write_text env_stat_fails
       (join_path (path (ok_result ''/tmp/quacktokenscope_spm_0'')) ''train.txt'') sample_text
       = Inr (ok_result (join_path (path (ok_result ''/tmp/quacktokenscope_spm_0'')) ''train.txt''))"
    "success (ok_result (join_path (path (ok_result ''/tmp/quacktokenscope_spm_0'')) ''train.txt''))"
    "spm_train env_stat_fails (Some sample_text) = Inr ''model''"
    "spm_load env_stat_fails (Some ''model'') = Inr example_processor"
    "get_file_info env_stat_fails ''models/sentencepiece.model'' = Inr False"
    by (simp_all add: example_defs)
  have old: "files world_with_old_model ''models/sentencepiece.model'' = Some ''old model''"
    by (simp add: world_with_old_model_def)
  note b = initialize_strategy_order [OF run_triple [of "initialize env_offline new_tokenizer world_with_model"]]
  note c = initialize_strategy_order [OF run_triple [of "initialize env_offline new_tokenizer world0"]]
  have pre: "t5_from_pretrained env_pretrained model_name = Inr example_wrapper"
    by (simp add: example_defs)
  have off: "t5_from_pretrained env_offline model_name = Inl OSError" "is_Exception OSError"
    "import_sentencepiece env_offline = None"
    "create_directory env_offline ''./models'' = Inr (ok_result ''models'')"
    "success (ok_result ''models'')"
    "get_file_info env_offline (join_path (path (ok_result ''models'')) ''sentencepiece.model'')
       = Inr True"
    "create_temp_directory env_offline ''quacktokenscope_spm_''
       = Inr (ok_result ''/tmp/quacktokenscope_spm_0'')"
    "success (ok_result ''/tmp/quacktokenscope_spm_0'')"
    "write_text env_offline
       (join_path (path (ok_result ''/tmp/quacktokenscope_spm_0'')) ''train.txt'') sample_text
       = Inr (ok_result (join_path (path (ok_result ''/tmp/quacktokenscope_spm_0'')) ''train.txt''))"
    "success (ok_result (join_path (path (ok_result ''/tmp/quacktokenscope_spm_0'')) ''train.txt''))"
    "spm_train env_offline (Some sample_text) = Inr ''model''"
    "spm_load env_offline (Some ''model'') = Inr example_processor"
    by (simp_all add: example_defs)
  have mp: "join_path (path (ok_result ''models'')) ''sentencepiece.model''
      = ''models/sentencepiece.model''"
    "join_path (path (ok_result ''/tmp/quacktokenscope_spm_0'')) ''train.txt''
      = ''/tmp/quacktokenscope_spm_0/train.txt''"
    "path (ok_result ''models'') @ ''/sentencepiece'' = ''models/sentencepiece''"
    by (simp_all add: join_path_def ok_result_def)
  have present: "files world_with_model ''models/sentencepiece.model'' = Some ''model''"
    and absent: "files world0 ''models/sentencepiece.model'' = None"
    by (simp_all add: example_defs)
  from a [THEN conjunct2, THEN conjunct1, rule_format, OF pre]
  have w1: "fst (initialize env_pretrained new_tokenizer world0) = Inr True"
    "new_events world0 (snd (snd (initialize env_pretrained new_tokenizer world0)))
      = [EvPretrained model_name]"
    by simp_all
  from b [THEN conjunct2, THEN conjunct2, THEN conjunct1, rule_format,
      OF off(1) off(2) off(3) off(4) off(5) off(6)] present off(12)
  have w2: "fst (initialize env_offline new_tokenizer world_with_model) = Inr True"
    "new_events world_with_model
        (snd (snd (initialize env_offline new_tokenizer world_with_model)))
      = [EvPretrained model_name, EvImportSentencepiece, EvCreateDirectory ''./models'',
         EvGetFileInfo ''models/sentencepiece.model'', EvLoad ''models/sentencepiece.model'']"
    by (simp_all add: mp)
  from c [THEN conjunct2, THEN conjunct2, THEN conjunct2, THEN conjunct1, rule_format,
      OF off(1) off(2) off(3) off(4) off(5) off(6) _ off(7) off(8) off(9) off(10) off(11)]
    absent off(12)
  have w3: "fst (initialize env_offline new_tokenizer world0) = Inr True"
    "EvTrain ''/tmp/quacktokenscope_spm_0/train.txt'' ''models/sentencepiece''
      \<in> set (new_events world0 (snd (snd (initialize env_offline new_tokenizer world0))))"
    "files (snd (snd (initialize env_offline new_tokenizer world0)))
      ''models/sentencepiece.model'' = Some ''model''"
    by (simp_all add: mp)
  from d [THEN conjunct2, THEN conjunct2, THEN conjunct2, THEN conjunct1, rule_format,
      OF sf(1) sf(2) sf(3) sf(4) sf(5) sf(6) _ sf(7) sf(8) sf(9) sf(10) sf(11)] sf(12)
  have w4: "fst (initialize env_stat_fails new_tokenizer world_with_old_model) = Inr True"
    "EvTrain ''/tmp/quacktokenscope_spm_0/train.txt'' ''models/sentencepiece''
      \<in> set (new_events world_with_old_model
                 (snd (snd (initialize env_stat_fails new_tokenizer world_with_old_model))))"
    "files (snd (snd (initialize env_stat_fails new_tokenizer world_with_old_model)))
      ''models/sentencepiece.model'' = Some ''model''"
    by (simp_all add: mp)
  from pre w1 present w2 absent w3 sf(13) old w4 show ?thesis
    by simp
qed

text \<open>
  C1, as the claim states it, fails on the condition of the training step: the claim
  trains only if no model file exists. With a model file in place and a file-info call
  that reports failure, the existing file is not loaded; a model is trained, written
  over the existing file and loaded, and the result is success.
\<close>

theorem initialize_trains_over_existing_artifact:
  "files world_with_old_model ''models/sentencepiece.model'' = Some ''old model'' \<and>
   fst (initialize env_stat_fails new_tokenizer world_with_old_model) = Inr True \<and>
   new_events world_with_old_model
       (snd (snd (initialize env_stat_fails new_tokenizer world_with_old_model)))
     = [EvPretrained model_name, EvImportSentencepiece, EvCreateDirectory ''./models'',
        EvGetFileInfo ''models/sentencepiece.model'',
        EvCreateTempDirectory ''quacktokenscope_spm_'',
        EvWriteText ''/tmp/quacktokenscope_spm_0/train.txt'',
        EvTrain ''/tmp/quacktokenscope_spm_0/train.txt'' ''models/sentencepiece'',
        EvLoad ''models/sentencepiece.model''] \<and>
   files (snd (snd (initialize env_stat_fails new_tokenizer world_with_old_model)))
     ''models/sentencepiece.model'' = Some ''model''"
  by (simp add: init_defs example_defs)


subsection \<open>Failures of the file store, repeated calls, the direct path\<close>


text \<open>
  C3. When the creation of the models directory, the creation of the temporary
  directory or the writing of the training file is reached and fails (by raising an
  \<open>Exception\<close> or by returning an unsuccessful result), \<open>initialize\<close> returns \<open>False\<close>:
  nothing is raised, and the flag and the backend object of the instance stay as
  they were.
\<close>

theorem file_store_failure_is_initialization_failure:
  assumes run: "initialize env s w = (r, s', w')"
      and failed:
        "(EvCreateDirectory ''./models'' \<in> set (new_events w w') \<and>
            fs_failed (create_directory env ''./models'')) \<or>
         (EvCreateTempDirectory ''quacktokenscope_spm_'' \<in> set (new_events w w') \<and>
            fs_failed (create_temp_directory env ''quacktokenscope_spm_'')) \<or>
         (\<exists>p. EvWriteText p \<in> set (new_events w w') \<and>
            fs_failed (write_text env p sample_text))"
  shows "r = Inr False \<and> initialized s' = initialized s \<and> tokenizer s' = tokenizer s"
  using failed
proof (elim disjE conjE exE)
  assume "EvCreateDirectory ''./models'' \<in> set (new_events w w')"
    and "fs_failed (create_directory env ''./models'')"
  then show ?thesis
    by (rule create_directory_failure [OF run])
next
  assume "EvCreateTempDirectory ''quacktokenscope_spm_'' \<in> set (new_events w w')"
    and "fs_failed (create_temp_directory env ''quacktokenscope_spm_'')"
  then show ?thesis
    by (rule create_temp_directory_failure [OF run])
next
  fix p
  assume "EvWriteText p \<in> set (new_events w w')"
    and "fs_failed (write_text env p sample_text)"
  then show ?thesis
    by (rule write_text_failure [OF run])
qed

theorem file_store_failure_is_initialization_failure_witness:
  "EvCreateDirectory ''./models''
     \<in> set (new_events world0 (snd (snd (initialize env_readonly new_tokenizer world0)))) \<and>
   fs_failed (create_directory env_readonly ''./models'') \<and>
   fst (initialize env_readonly new_tokenizer world0) = Inr False \<and>
   initialized (fst (snd (initialize env_readonly new_tokenizer world0))) = False"
proof -
  have ev: "EvCreateDirectory ''./models''
     \<in> set (new_events world0 (snd (snd (initialize env_readonly new_tokenizer world0))))"
    by (simp add: init_defs example_defs)
  have fl: "fs_failed (create_directory env_readonly ''./models'')"
    by (simp add: fs_failed_def example_defs)
  from file_store_failure_is_initialization_failure
    [OF run_triple [of "initialize env_readonly new_tokenizer world0"] disjI1 [OF conjI [OF ev fl]]]
  show ?thesis
    using ev fl by (simp add: new_tokenizer_def)
qed

lemma state_fixed:
  "tokenizer s1 = Some tk \<Longrightarrow> initialized s1 \<Longrightarrow>
     s1\<lparr>tokenizer := Some tk, initialized := True\<rparr> = s1"
  by simp

text \<open>
  C8, as the code has it. \<open>initialize\<close> has no guard for an instance that is already
  initialized: every call runs the strategies again. When the second call gets the
  same answers from its environment as the first and the file-info call does not
  report failure, the second call succeeds again, leaves the instance as it was, does
  not train, and leaves the files as they were.
\<close>

theorem initialize_again_same_environment:
  assumes first: "initialize env s w = (Inr True, s1, w1)"
      and stat: "\<forall>p. get_file_info env p \<noteq> Inr False"
  shows "\<exists>w2. initialize env s1 w1 = (Inr True, s1, w2) \<and>
           (\<forall>a b. EvTrain a b \<notin> set (new_events w1 w2)) \<and> files w2 = files w1"
  using initialize_success_cases [OF first]
proof (elim disjE exE conjE)
  fix tk
  assume "t5_from_pretrained env model_name = Inr tk" "tokenizer s1 = Some tk" "initialized s1"
  then show ?thesis
    by (simp add: initialize_def emit_def new_events_def Let_def)
next
  fix e d ok tk
  assume a: "t5_from_pretrained env model_name = Inl e" "is_Exception e"
    "import_sentencepiece env = None" "create_directory env ''./models'' = Inr d" "success d"
    "get_file_info env (join_path (path d) ''sentencepiece.model'') = Inr ok"
    "files w1 (join_path (path d) ''sentencepiece.model'') \<noteq> None"
    "spm_load env (files w1 (join_path (path d) ''sentencepiece.model'')) = Inr tk"
    "tokenizer s1 = Some tk" "initialized s1"
  from stat a(6) have ok: "ok" by (cases ok) auto
  from a(7) obtain y where y: "files w1 (join_path (path d) ''sentencepiece.model'') = Some y"
    by auto
  from a(8) y have ld: "spm_load env (Some y) = Inr tk" by simp
  from a(1-5) a(6) ok y ld a(9,10) show ?thesis
    by (simp add: init_defs)
qed

theorem initialize_again_same_environment_witness:
  "fst (initialize env_offline new_tokenizer world0) = Inr True \<and>
   (\<forall>p. get_file_info env_offline p \<noteq> Inr False) \<and>
   (\<exists>w2. initialize env_offline (fst (snd (initialize env_offline new_tokenizer world0)))
            (snd (snd (initialize env_offline new_tokenizer world0)))
          = (Inr True, fst (snd (initialize env_offline new_tokenizer world0)), w2) \<and>
         (\<forall>a b. EvTrain a b
            \<notin> set (new_events (snd (snd (initialize env_offline new_tokenizer world0))) w2)) \<and>
         files w2 = files (snd (snd (initialize env_offline new_tokenizer world0))))"
proof -
  have ok: "fst (initialize env_offline new_tokenizer world0) = Inr True"
    by (simp add: init_defs example_defs)
  have first: "initialize env_offline new_tokenizer world0 =
      (Inr True, fst (snd (initialize env_offline new_tokenizer world0)),
       snd (snd (initialize env_offline new_tokenizer world0)))"
    using ok run_triple [of "initialize env_offline new_tokenizer world0"] by simp
  have stat: "\<forall>p. get_file_info env_offline p \<noteq> Inr False"
    by (simp add: example_defs)
  from initialize_again_same_environment [OF first stat] ok stat show ?thesis
    by blast
qed

text \<open>
  C8, as the claim states it, fails in two ways. With the same environment on both
  calls, one whose file-info call reports failure: the first call trains and succeeds,
  and the second call trains again. With an environment that changes between the calls,
  the pretrained model becoming available: both calls succeed, and the second one
  replaces the loaded model.
\<close>

theorem initialize_again_counterexample:
  "fst (fst (initialize_twice env_stat_fails env_stat_fails world0)) = Inr True \<and>
   fst (snd (initialize_twice env_stat_fails env_stat_fails world0)) = Inr True \<and>
   EvTrain ''/tmp/quacktokenscope_spm_0/train.txt'' ''models/sentencepiece''
     \<in> set (new_events
              (snd (snd (fst (initialize_twice env_stat_fails env_stat_fails world0))))
              (snd (snd (snd (initialize_twice env_stat_fails env_stat_fails world0))))) \<and>
   fst (fst (initialize_twice env_offline env_pretrained world0)) = Inr True \<and>
   fst (snd (initialize_twice env_offline env_pretrained world0)) = Inr True \<and>
   tokenizer (fst (snd (fst (initialize_twice env_offline env_pretrained world0))))
     = Some example_processor \<and>
   tokenizer (fst (snd (snd (initialize_twice env_offline env_pretrained world0))))
     = Some example_wrapper \<and>
   vocab_size_attr example_processor \<noteq> vocab_size_attr example_wrapper"
  by (simp add: initialize_twice_def init_defs example_defs example_processor_def
      example_wrapper_def)

lemma tokenize_without_encode:
  "initialized s \<Longrightarrow> \<not> hasattr_encode (obj_of (tokenizer s)) \<Longrightarrow>
     tokenize s text = Inl (Raised AttributeError)"
  by (simp add: tokenize_def call_encode_def hasattr_encode_def Let_def split: option.splits)

lemma decode_without_decode:
  "initialized s \<Longrightarrow> \<not> hasattr_decode (obj_of (tokenizer s)) \<Longrightarrow>
     decode s ids = Inl (Raised AttributeError)"
  by (simp add: decode_def call_decode_def hasattr_decode_def Let_def split: option.splits)

lemma tokenize_returns_only_from_wrapper_branch:
  "tokenize s text = Inr (ids, strs) \<Longrightarrow>
     initialized s \<and> hasattr_encode (obj_of (tokenizer s)) \<and>
     convert_ids_to_tokens_attr (obj_of (tokenizer s)) \<noteq> None"
  by (auto simp: tokenize_def call_encode_def call_convert_ids_to_tokens_def hasattr_encode_def
      Let_def split: option.splits sum.splits if_splits)

text \<open>
  C4. On an instance initialized through the direct SentencePiece path, \<open>tokenize\<close>
  returns nothing. With a processor that has no \<open>encode\<close> attribute, the branch marked
  "Direct SentencePiece" is taken and its first statement looks up the attribute that
  was just found missing. With a processor that has \<open>encode\<close>, the branch meant for
  the wrapper is taken and \<open>encode\<close> is called with \<open>add_special_tokens\<close>.
\<close>

theorem tokenize_direct_sentencepiece_raises:
  "initialized (fst (snd (initialize env_offline new_tokenizer world0))) \<and>
   tokenize (fst (snd (initialize env_offline new_tokenizer world0))) ''hello''
     = Inl (Raised AttributeError) \<and>
   initialized (fst (snd (initialize env_offline_v2 new_tokenizer world0))) \<and>
   tokenize (fst (snd (initialize env_offline_v2 new_tokenizer world0))) ''hello''
     = Inl (Raised TypeError)"
  by (simp add: init_defs example_defs tokenize_def call_encode_def hasattr_encode_def
      obj_of_def example_processor_def example_processor_v2_def)

text \<open>
  C5. On the same instances \<open>decode(tokenize(text)[0])\<close> raises for a non-empty text,
  and so does \<open>decode\<close> on a non-empty list of ids.
\<close>

theorem decode_tokenize_direct_sentencepiece_raises:
  "decode_tokenize (fst (snd (initialize env_offline new_tokenizer world0))) ''hello''
     = Inl (Raised AttributeError) \<and>
   decode (fst (snd (initialize env_offline new_tokenizer world0))) (PyInts [104, 105])
     = Inl (Raised AttributeError) \<and>
   decode_tokenize (fst (snd (initialize env_offline_v2 new_tokenizer world0))) ''hello''
     = Inl (Raised TypeError) \<and>
   decode (fst (snd (initialize env_offline_v2 new_tokenizer world0))) (PyInts [104, 105])
     = Inl (Raised TypeError)"
  by (simp add: init_defs example_defs decode_tokenize_def tokenize_def decode_def
      call_encode_def call_decode_def hasattr_encode_def hasattr_decode_def
      obj_of_def example_processor_def example_processor_v2_def)

section \<open>Properties of the cost model\<close>

text \<open>
  C6. For a model of the pricing table \<open>compute_cost\<close> returns input cost = input
  tokens / 1000 * input rate, output cost = output tokens / 1000 * output rate and total
  cost = their sum; for a model that is not in the table it fails with
  \<open>UnknownModelError\<close>; zero tokens cost zero; and 1000 input tokens and 500 output
  tokens at the rates 0.01 and 0.03 cost 0.01, 0.015 and 0.025 in total.
\<close>

theorem compute_cost_formula:
  "(\<forall>ir or. map_of table model = Some (ir, or) \<longrightarrow>
      compute_cost table input_tokens output_tokens model =
        Inr \<lparr>input_cost = of_nat input_tokens / 1000 * ir,
             output_cost = of_int output_tokens / 1000 * or,
             total_cost = of_nat input_tokens / 1000 * ir + of_int output_tokens / 1000 * or\<rparr> \<and>
      compute_cost table 0 0 model = Inr \<lparr>input_cost = 0, output_cost = 0, total_cost = 0\<rparr> \<and>
      input_cost (cost_of 0 output_tokens (ir, or)) = 0 \<and>
      output_cost (cost_of input_tokens 0 (ir, or)) = 0) \<and>
   (map_of table model = None \<longrightarrow>
      compute_cost table input_tokens output_tokens model = Inl (UnknownModelError model)) \<and>
   (map_of table ''gpt-4-turbo'' = Some (1 / 100, 3 / 100) \<longrightarrow>
      compute_cost table 1000 500 ''gpt-4-turbo'' =
        Inr \<lparr>input_cost = 1 / 100, output_cost = 15 / 1000, total_cost = 25 / 1000\<rparr>)"
  by (simp add: compute_cost_def cost_of_def Let_def)

theorem compute_cost_formula_witness:
  "map_of example_table ''gpt-4-turbo'' = Some (1 / 100, 3 / 100) \<and>
   map_of example_table ''gpt-5'' = None \<and>
   compute_cost example_table 1000 500 ''gpt-4-turbo'' =
     Inr \<lparr>input_cost = 1 / 100, output_cost = 15 / 1000, total_cost = 25 / 1000\<rparr> \<and>
   compute_cost example_table 0 0 ''gpt-4-turbo'' =
     Inr \<lparr>input_cost = 0, output_cost = 0, total_cost = 0\<rparr> \<and>
   compute_cost example_table 1000 500 ''gpt-5'' = Inl (UnknownModelError ''gpt-5'')"
proof -
  have a: "map_of example_table ''gpt-4-turbo'' = Some (1 / 100, 3 / 100)"
    and b: "map_of example_table ''gpt-5'' = None"
    by (simp_all add: example_table_def)
  note t1 = compute_cost_formula [of example_table "''gpt-4-turbo''" 1000 500]
  note t2 = compute_cost_formula [of example_table "''gpt-5''" 1000 500]
  from t1 [THEN conjunct1, rule_format, OF a] t1 [THEN conjunct2, THEN conjunct2, rule_format, OF a]
    t2 [THEN conjunct2, THEN conjunct1, rule_format, OF b] a b
  show ?thesis
    by simp
qed

lemma compare_models_keys: "map fst (compare_models table i ot) = map fst table"
  by (induction table) (auto simp: compare_models_def)

lemma compare_models_lookup:
  "map_of (compare_models table i ot) m =
     (case compute_cost table i ot m of Inl e \<Rightarrow> None | Inr c \<Rightarrow> Some c)"
  by (induction table) (auto simp: compare_models_def compute_cost_def)

lemma cost_of_doubling:
  "0 \<le> irate \<Longrightarrow> total_cost (cost_of i ot (irate, orate)) \<le> total_cost (cost_of (2 * i) ot (irate, orate))"
  by (simp add: cost_of_def Let_def mult_right_mono divide_right_mono)

lemma valid_table_rates:
  "valid_table table \<Longrightarrow> map_of table m = Some (irate, orate) \<Longrightarrow> 0 \<le> irate \<and> 0 \<le> orate"
  by (auto simp: valid_table_def list_all_iff dest!: map_of_SomeD)

lemma comparison_rows_sorted:
  "sorted (map (\<lambda>row. fst (snd row)) (comparison_rows results))"
proof -
  have "map (\<lambda>row. fst (snd row)) (comparison_rows results)
      = map (\<lambda>x. total_cost (snd x)) (sort_key (\<lambda>x. total_cost (snd x)) results)"
    by (simp add: comparison_rows_def comp_def case_prod_beta)
  then show ?thesis by simp
qed

lemma comparison_rows_stable:
  "filter (\<lambda>row. fst (snd row) = k) (comparison_rows results)
     = map (\<lambda>(model_name, cost_info).
              (model_name, total_cost cost_info, input_cost cost_info, output_cost cost_info))
           (filter (\<lambda>x. total_cost (snd x) = k) results)"
proof -
  have "filter (\<lambda>row. fst (snd row) = k) (comparison_rows results)
      = map (\<lambda>(model_name, cost_info).
              (model_name, total_cost cost_info, input_cost cost_info, output_cost cost_info))
            (filter (\<lambda>x. total_cost (snd x) = k) (sort_key (\<lambda>x. total_cost (snd x)) results))"
    by (simp add: comparison_rows_def filter_map comp_def case_prod_beta)
  then show ?thesis
    by (simp add: sort_key_stable)
qed

text \<open>
  C7. For a table with one entry per model and rates that are not negative,
  \<open>compare_models\<close> has exactly one entry per model of the table, in the order of the
  table, and that entry is the cost breakdown of the model; doubling the input tokens
  never lowers the total cost of a model; the rows of the comparison table are in
  ascending order of total cost, and rows of equal total cost keep the order of the
  table.
\<close>

theorem compare_models_complete_monotone_sorted:
  assumes valid: "valid_table table"
  shows "map fst (compare_models table i ot) = map fst table \<and>
         distinct (map fst (compare_models table i ot)) \<and>
         (\<forall>m. map_of (compare_models table i ot) m =
                (case compute_cost table i ot m of Inl e \<Rightarrow> None | Inr c \<Rightarrow> Some c)) \<and>
         (\<forall>m c c2. map_of (compare_models table i ot) m = Some c \<longrightarrow>
                map_of (compare_models table (2 * i) ot) m = Some c2 \<longrightarrow>
                total_cost c \<le> total_cost c2) \<and>
         sorted (map (\<lambda>row. fst (snd row)) (comparison_rows (compare_models table i ot))) \<and>
         (\<forall>k. filter (\<lambda>row. fst (snd row) = k) (comparison_rows (compare_models table i ot))
              = map (\<lambda>(model_name, cost_info).
                       (model_name, total_cost cost_info, input_cost cost_info,
                        output_cost cost_info))
                    (filter (\<lambda>x. total_cost (snd x) = k) (compare_models table i ot)))"
proof -
  have mono: "\<forall>m c c2. map_of (compare_models table i ot) m = Some c \<longrightarrow>
                map_of (compare_models table (2 * i) ot) m = Some c2 \<longrightarrow>
                total_cost c \<le> total_cost c2"
  proof (intro allI impI)
    fix m c c2
    assume a: "map_of (compare_models table i ot) m = Some c"
      and b: "map_of (compare_models table (2 * i) ot) m = Some c2"
    from a obtain irate orate where r: "map_of table m = Some (irate, orate)"
      by (cases "map_of table m") (auto simp: compare_models_lookup compute_cost_def)
    from a r have c: "c = cost_of i ot (irate, orate)"
      by (simp add: compare_models_lookup compute_cost_def)
    from b r have c2: "c2 = cost_of (2 * i) ot (irate, orate)"
      by (simp add: compare_models_lookup compute_cost_def)
    from valid_table_rates [OF valid r] have "0 \<le> irate" by simp
    from cost_of_doubling [OF this] c c2 show "total_cost c \<le> total_cost c2"
      by simp
  qed
  from valid have d: "distinct (map fst (compare_models table i ot))"
    by (simp add: compare_models_keys valid_table_def)
  show ?thesis
    using compare_models_keys [of table i ot] d compare_models_lookup [of table i ot] mono
      comparison_rows_sorted [of "compare_models table i ot"]
      comparison_rows_stable [of _ "compare_models table i ot"]
    by blast
qed



theorem compare_models_complete_monotone_sorted_witness:
  "valid_table example_table \<and>
   map fst (compare_models example_table 1000 500) =
     [''gpt-4-turbo'', ''gpt-3.5-turbo'', ''claude-3-opus'', ''gpt-4-turbo-preview''] \<and>
   map_of (compare_models example_table 1000 500) ''gpt-4-turbo'' =
     Some \<lparr>input_cost = 1 / 100, output_cost = 15 / 1000, total_cost = 25 / 1000\<rparr> \<and>
   map_of (compare_models example_table (2 * 1000) 500) ''gpt-4-turbo'' =
     Some \<lparr>input_cost = 2 / 100, output_cost = 15 / 1000, total_cost = 35 / 1000\<rparr> \<and>
   total_cost \<lparr>input_cost = 1 / 100, output_cost = 15 / 1000, total_cost = 25 / 1000\<rparr>
     \<le> total_cost \<lparr>input_cost = 2 / 100, output_cost = 15 / 1000, total_cost = 35 / 1000\<rparr> \<and>
   sorted (map (\<lambda>row. fst (snd row))
             (comparison_rows (compare_models example_table 1000 500))) \<and>
   map fst (comparison_rows (compare_models example_table 1000 500)) =
     [''gpt-3.5-turbo'', ''gpt-4-turbo'', ''gpt-4-turbo-preview'', ''claude-3-opus''] \<and>
   map fst (filter (\<lambda>row. fst (snd row) = 25 / 1000)
              (comparison_rows (compare_models example_table 1000 500))) =
     [''gpt-4-turbo'', ''gpt-4-turbo-preview'']"
proof -
  have valid: "valid_table example_table"
    by (simp add: valid_table_def example_table_def)
  note t = compare_models_complete_monotone_sorted [OF valid, of 1000 500]
  have a: "map_of (compare_models example_table 1000 500) ''gpt-4-turbo'' =
     Some \<lparr>input_cost = 1 / 100, output_cost = 15 / 1000, total_cost = 25 / 1000\<rparr>"
    and b: "map_of (compare_models example_table (2 * 1000) 500) ''gpt-4-turbo'' =
     Some \<lparr>input_cost = 2 / 100, output_cost = 15 / 1000, total_cost = 35 / 1000\<rparr>"
    by (simp_all add: example_table_def compare_models_def cost_of_def Let_def)
  have keys: "map fst (compare_models example_table 1000 500) =
     [''gpt-4-turbo'', ''gpt-3.5-turbo'', ''claude-3-opus'', ''gpt-4-turbo-preview'']"
    using t [THEN conjunct1] by (simp add: example_table_def)
  have mono: "total_cost \<lparr>input_cost = 1 / 100, output_cost = 15 / 1000, total_cost = 25 / 1000\<rparr>
     \<le> total_cost \<lparr>input_cost = 2 / 100, output_cost = 15 / 1000, total_cost = 35 / 1000\<rparr>"
    by (rule t [THEN conjunct2, THEN conjunct2, THEN conjunct2, THEN conjunct1, rule_format,
          OF a b])
  have srt: "sorted (map (\<lambda>row. fst (snd row))
             (comparison_rows (compare_models example_table 1000 500)))"
    by (rule t [THEN conjunct2, THEN conjunct2, THEN conjunct2, THEN conjunct2, THEN conjunct1])
  have rows: "map fst (comparison_rows (compare_models example_table 1000 500)) =
     [''gpt-3.5-turbo'', ''gpt-4-turbo'', ''gpt-4-turbo-preview'', ''claude-3-opus'']"
    by (simp add: example_table_def comparison_rows_def compare_models_def cost_of_def Let_def)
  have ties: "map fst (filter (\<lambda>row. fst (snd row) = 25 / 1000)
              (comparison_rows (compare_models example_table 1000 500))) =
     [''gpt-4-turbo'', ''gpt-4-turbo-preview'']"
    using t [THEN conjunct2, THEN conjunct2, THEN conjunct2, THEN conjunct2, THEN conjunct2,
        rule_format, of "25 / 1000"]
    by (simp add: example_table_def compare_models_def cost_of_def Let_def)
  from valid keys a b mono srt rows ties show ?thesis
    by simp
qed


section \<open>Properties of the scenario explorer and of the command\<close>

lemma example_token_count:
  "count_tokens (tokenize example_instance) ''hello'' = Inr 5"
  "count_tokens (tokenize example_instance) ''hello world'' = Inr 11"
  by (simp_all add: count_tokens_def tokenize_def example_instance_def example_wrapper_def
      obj_of_def hasattr_encode_def call_encode_def call_convert_ids_to_tokens_def Let_def)









lemma run_command_text:
  assumes "CostSummary t n ot' m \<in> set (fst (run_command env input_text model ot tn wi cm))"
  shows "t = input_text \<and> ot' = ot \<and> m = model \<and>
         (\<exists>available tok. plugin_initialize env = Inr available \<and>
            map_of available tn = Some tok \<and> count_tokens tok input_text = Inr n)"
  using assms
  by (auto simp: run_command_def Let_def split: sum.splits option.splits if_splits)

lemma run_command_comparison:
  assumes "ComparisonTable rows \<in> set (fst (run_command env input_text model ot tn wi cm))"
  shows "\<exists>available tok n. plugin_initialize env = Inr available \<and>
            map_of available tn = Some tok \<and> count_tokens tok input_text = Inr n \<and>
            rows = comparison_rows (compare_models (pricing env) n ot)"
  using assms
  by (auto simp: run_command_def Let_def split: sum.splits option.splits if_splits)

lemma file_is_read:
  assumes "is_existing_file env input_text = Inr True" "open_read env input_text = Inr contents"
  shows "handle_calculate_cost_command env input_text model ot tn wi cm =
           (PrintInfo (ReadInputFromFile input_text) #
              fst (run_command env contents model ot tn wi cm),
            snd (run_command env contents model ot tn wi cm))"
  using assms
  by (simp add: handle_calculate_cost_command_def case_prod_beta)

lemma file_read_failure:
  assumes "is_existing_file env input_text = Inr True" "open_read env input_text = Inl e"
    "is_Exception e"
  shows "handle_calculate_cost_command env input_text model ot tn wi cm =
           ([PrintError (FailedToReadFile e) 1], Stopped)"
  using assms
  by (simp add: handle_calculate_cost_command_def)

lemma literal_text:
  assumes "is_existing_file env input_text = Inr False"
  shows "handle_calculate_cost_command env input_text model ot tn wi cm =
           run_command env input_text model ot tn wi cm"
  using assms
  by (simp add: handle_calculate_cost_command_def)

text \<open>
  C10, as the code has it. When the input text names an existing regular file that can
  be read, the command prints an info line that names the file and then works on the
  contents of the file: the text of the cost summary is the contents, the token count is
  that of the contents, and the comparison table is computed from that count. When
  reading the file raises an \<open>Exception\<close>, the command prints an error with exit code 1 and
  does nothing else. When the input text does not name an existing regular file, the
  command works on the input text itself.
\<close>

theorem input_text_naming_a_file_is_read:
  "(is_existing_file env input_text = Inr True \<longrightarrow>
      (\<forall>contents. open_read env input_text = Inr contents \<longrightarrow>
         handle_calculate_cost_command env input_text model ot tn wi cm =
           (PrintInfo (ReadInputFromFile input_text) #
              fst (run_command env contents model ot tn wi cm),
            snd (run_command env contents model ot tn wi cm)) \<and>
         (\<forall>t n ot' m.
            CostSummary t n ot' m
              \<in> set (fst (handle_calculate_cost_command env input_text model ot tn wi cm)) \<longrightarrow>
            t = contents \<and>
            (\<exists>available tok. plugin_initialize env = Inr available \<and>
               map_of available tn = Some tok \<and> count_tokens tok contents = Inr n)) \<and>
         (\<forall>rows.
            ComparisonTable rows
              \<in> set (fst (handle_calculate_cost_command env input_text model ot tn wi cm)) \<longrightarrow>
            (\<exists>available tok n. plugin_initialize env = Inr available \<and>
               map_of available tn = Some tok \<and> count_tokens tok contents = Inr n \<and>
               rows = comparison_rows (compare_models (pricing env) n ot)))) \<and>
      (\<forall>e. open_read env input_text = Inl e \<longrightarrow> is_Exception e \<longrightarrow>
         handle_calculate_cost_command env input_text model ot tn wi cm =
           ([PrintError (FailedToReadFile e) 1], Stopped))) \<and>
   (is_existing_file env input_text = Inr False \<longrightarrow>
      handle_calculate_cost_command env input_text model ot tn wi cm =
        run_command env input_text model ot tn wi cm \<and>
      (\<forall>t n ot' m.
         CostSummary t n ot' m
           \<in> set (fst (handle_calculate_cost_command env input_text model ot tn wi cm)) \<longrightarrow>
         t = input_text \<and>
         (\<exists>available tok. plugin_initialize env = Inr available \<and>
            map_of available tn = Some tok \<and> count_tokens tok input_text = Inr n)))"
proof (intro conjI impI allI)
  fix contents
  assume a: "is_existing_file env input_text = Inr True" "open_read env input_text = Inr contents"
  show "handle_calculate_cost_command env input_text model ot tn wi cm =
           (PrintInfo (ReadInputFromFile input_text) #
              fst (run_command env contents model ot tn wi cm),
            snd (run_command env contents model ot tn wi cm))"
    by (rule file_is_read [OF a])
next
  fix contents t n ot' m
  assume a: "is_existing_file env input_text = Inr True" "open_read env input_text = Inr contents"
    and b: "CostSummary t n ot' m
              \<in> set (fst (handle_calculate_cost_command env input_text model ot tn wi cm))"
  from b have c: "CostSummary t n ot' m \<in> set (fst (run_command env contents model ot tn wi cm))"
    by (simp add: file_is_read [OF a])
  from run_command_text [OF c] show "t = contents" by simp
  from run_command_text [OF c]
  show "\<exists>available tok. plugin_initialize env = Inr available \<and>
               map_of available tn = Some tok \<and> count_tokens tok contents = Inr n"
    by simp
next
  fix contents rows
  assume a: "is_existing_file env input_text = Inr True" "open_read env input_text = Inr contents"
    and b: "ComparisonTable rows
              \<in> set (fst (handle_calculate_cost_command env input_text model ot tn wi cm))"
  from b have c: "ComparisonTable rows \<in> set (fst (run_command env contents model ot tn wi cm))"
    by (simp add: file_is_read [OF a])
  from run_command_comparison [OF c]
  show "\<exists>available tok n. plugin_initialize env = Inr available \<and>
               map_of available tn = Some tok \<and> count_tokens tok contents = Inr n \<and>
               rows = comparison_rows (compare_models (pricing env) n ot)" .
next
  fix e
  assume "is_existing_file env input_text = Inr True" "open_read env input_text = Inl e"
    "is_Exception e"
  then show "handle_calculate_cost_command env input_text model ot tn wi cm =
           ([PrintError (FailedToReadFile e) 1], Stopped)"
    by (rule file_read_failure)
next
  assume a: "is_existing_file env input_text = Inr False"
  show "handle_calculate_cost_command env input_text model ot tn wi cm =
        run_command env input_text model ot tn wi cm"
    by (rule literal_text [OF a])
next
  fix t n ot' m
  assume a: "is_existing_file env input_text = Inr False"
    and b: "CostSummary t n ot' m
              \<in> set (fst (handle_calculate_cost_command env input_text model ot tn wi cm))"
  from b have c: "CostSummary t n ot' m \<in> set (fst (run_command env input_text model ot tn wi cm))"
    by (simp add: literal_text [OF a])
  from run_command_text [OF c] show "t = input_text" by simp
  from run_command_text [OF c]
  show "\<exists>available tok. plugin_initialize env = Inr available \<and>
            map_of available tn = Some tok \<and> count_tokens tok input_text = Inr n"
    by simp
qed

lemma example_files:
  "is_existing_file example_cli_env ''notes.txt'' = Inr True"
  "open_read example_cli_env ''notes.txt'' = Inr ''hello''"
  "is_existing_file example_cli_env ''locked.txt'' = Inr True"
  "open_read example_cli_env ''locked.txt'' = Inl OSError"
  "is_existing_file example_cli_env ''hello world'' = Inr False"
  "is_existing_file example_cli_env ''models'' = Inr False"
  by (simp_all add: is_existing_file_def example_cli_env_def)

lemma example_commands:
  "run_command example_cli_env ''hello'' ''gpt-4-turbo'' 0 ''sentencepiece'' False False =
     ([CostSummary ''hello'' 5 0 ''gpt-4-turbo''], Completed)"
  "run_command example_cli_env ''hello world'' ''gpt-4-turbo'' 0 ''sentencepiece'' False False =
     ([CostSummary ''hello world'' 11 0 ''gpt-4-turbo''], Completed)"
  by (simp_all add: run_command_def example_cli_env_def example_token_count Let_def)

theorem input_text_naming_a_file_is_read_witness:
  "is_existing_file example_cli_env ''notes.txt'' = Inr True \<and>
   open_read example_cli_env ''notes.txt'' = Inr ''hello'' \<and>
   handle_calculate_cost_command example_cli_env ''notes.txt'' ''gpt-4-turbo'' 0
       ''sentencepiece'' False False =
     ([PrintInfo (ReadInputFromFile ''notes.txt''), CostSummary ''hello'' 5 0 ''gpt-4-turbo''],
      Completed) \<and>
   is_existing_file example_cli_env ''locked.txt'' = Inr True \<and>
   open_read example_cli_env ''locked.txt'' = Inl OSError \<and> is_Exception OSError \<and>
   handle_calculate_cost_command example_cli_env ''locked.txt'' ''gpt-4-turbo'' 0
       ''sentencepiece'' False False =
     ([PrintError (FailedToReadFile OSError) 1], Stopped) \<and>
   is_existing_file example_cli_env ''hello world'' = Inr False \<and>
   handle_calculate_cost_command example_cli_env ''hello world'' ''gpt-4-turbo'' 0
       ''sentencepiece'' False False =
     ([CostSummary ''hello world'' 11 0 ''gpt-4-turbo''], Completed)"
proof -
  note a = input_text_naming_a_file_is_read
    [of example_cli_env "''notes.txt''" "''gpt-4-turbo''" 0 "''sentencepiece''" False False]
  note b = input_text_naming_a_file_is_read
    [of example_cli_env "''locked.txt''" "''gpt-4-turbo''" 0 "''sentencepiece''" False False]
  note c = input_text_naming_a_file_is_read
    [of example_cli_env "''hello world''" "''gpt-4-turbo''" 0 "''sentencepiece''" False False]
  have exc: "is_Exception OSError" by simp
  from a [THEN conjunct1, rule_format, OF example_files(1), THEN conjunct1, rule_format,
      OF example_files(2), THEN conjunct1]
  have w1: "handle_calculate_cost_command example_cli_env ''notes.txt'' ''gpt-4-turbo'' 0
       ''sentencepiece'' False False =
     ([PrintInfo (ReadInputFromFile ''notes.txt''), CostSummary ''hello'' 5 0 ''gpt-4-turbo''],
      Completed)"
    by (simp add: example_commands)
  from b [THEN conjunct1, rule_format, OF example_files(3), THEN conjunct2, rule_format,
      OF example_files(4) exc]
  have w2: "handle_calculate_cost_command example_cli_env ''locked.txt'' ''gpt-4-turbo'' 0
       ''sentencepiece'' False False =
     ([PrintError (FailedToReadFile OSError) 1], Stopped)" .
  from c [THEN conjunct2, rule_format, OF example_files(5), THEN conjunct1]
  have w3: "handle_calculate_cost_command example_cli_env ''hello world'' ''gpt-4-turbo'' 0
       ''sentencepiece'' False False =
     ([CostSummary ''hello world'' 11 0 ''gpt-4-turbo''], Completed)"
    by (simp add: example_commands)
  from example_files(1-5) exc w1 w2 w3 show ?thesis
    by simp
qed

text \<open>
  C10, as the claim states it, fails on the word silently: the replacement is announced.
  For the input text \<open>notes.txt\<close>, which names a readable file, the first thing the command
  does is print the info line that names the file.
\<close>

theorem input_file_replacement_is_announced:
  "handle_calculate_cost_command example_cli_env ''notes.txt'' ''gpt-4-turbo'' 0
       ''sentencepiece'' False False =
     ([PrintInfo (ReadInputFromFile ''notes.txt''), CostSummary ''hello'' 5 0 ''gpt-4-turbo''],
      Completed)"
  by (simp add: handle_calculate_cost_command_def example_files example_commands)

end
